theory Spec2Isabelle
  imports Main
begin

section \<open>The session state of \<open>App.tsx\<close>\<close>

text \<open>
  \<open>App\<close> keeps its whole session in React state hooks (lines 39--53). One record field
  per hook, with the hook's name. A \<open>string | null\<close> hook is a \<open>string option\<close>.
  Strings are lists of 8-bit characters: code units above U+00FF are outside the model.
\<close>

datatype AspectRatio = Landscape_16_9 | Portrait_9_16

record state =
  logoPrompt :: string
  animationPrompt :: string
  generatedLogo :: "string option"
  generatedVideo :: "string option"
  logoToAnimate :: "string option"
  isGeneratingLogo :: bool
  isGeneratingVideo :: bool
  error :: "string option"
  aspectRatio :: AspectRatio
  hasApiKey :: bool
  videoLoadingMessage :: string

text \<open>Lines 29--36.\<close>

definition videoLoadingMessages :: "string list" where
  "videoLoadingMessages =
    [''Warming up the animation engine...'',
     ''Teaching the pixels to dance...'',
     ''Composing a symphony of light and motion...'',
     ''This can take a few minutes, please be patient...'',
     ''Rendering the final masterpiece...'',
     ''Almost there, adding the final sparkle...'']"

text \<open>The initial values of the hooks, lines 39--53.\<close>

definition initial_state :: state where
  "initial_state =
    \<lparr> logoPrompt = ''A minimalist, geometric fox logo, clean lines, orange and white.'',
      animationPrompt = ''The fox logo winks, and then futuristic digital circuits glow behind it.'',
      generatedLogo = None,
      generatedVideo = None,
      logoToAnimate = None,
      isGeneratingLogo = False,
      isGeneratingVideo = False,
      error = None,
      aspectRatio = Landscape_16_9,
      hasApiKey = False,
      videoLoadingMessage = videoLoadingMessages ! 0 \<rparr>"

section \<open>The JavaScript string operations the handlers use\<close>

text \<open>
  \<open>String.prototype.trim\<close> removes white space and line terminators from both ends.
  Of the code units below U+0100 these are TAB, LF, VT, FF, CR, SPACE and NBSP.
\<close>

definition is_js_whitespace :: "char \<Rightarrow> bool" where
  "is_js_whitespace c = (of_char c \<in> {9, 10, 11, 12, 13, 32, 160 :: nat})"

definition trim :: "string \<Rightarrow> string" where
  "trim s = rev (dropWhile is_js_whitespace (rev (dropWhile is_js_whitespace s)))"

text \<open>\<open>!s.trim()\<close>: the empty string is the only falsy string.\<close>

definition blank :: "string \<Rightarrow> bool" where
  "blank s = (trim s = [])"

text \<open>\<open>!x\<close> for \<open>x : string | null\<close>: \<open>null\<close> and the empty string are falsy.\<close>

definition falsy :: "string option \<Rightarrow> bool" where
  "falsy x = (case x of None \<Rightarrow> True | Some v \<Rightarrow> v = [])"

text \<open>\<open>m || fallback\<close>, for \<open>m\<close> a string or \<open>undefined\<close>.\<close>

definition message_or :: "string option \<Rightarrow> string \<Rightarrow> string" where
  "message_or m fallback =
    (case m of None \<Rightarrow> fallback | Some v \<Rightarrow> if v = [] then fallback else v)"

text \<open>\<open>hay.includes(needle)\<close>: \<open>needle\<close> occurs in \<open>hay\<close> as a contiguous substring.\<close>

fun starts_with :: "string \<Rightarrow> string \<Rightarrow> bool" where
  "starts_with hay [] = True"
| "starts_with [] (p # ps) = False"
| "starts_with (c # cs) (p # ps) = (c = p \<and> starts_with cs ps)"

fun includes_js :: "string \<Rightarrow> string \<Rightarrow> bool" where
  "includes_js [] needle = (needle = [])"
| "includes_js (c # cs) needle = (starts_with (c # cs) needle \<or> includes_js cs needle)"

text \<open>\<open>s.split(',')\<close> and the read \<open>[1]\<close> of its result, \<open>undefined\<close> when out of range.\<close>

fun split :: "char \<Rightarrow> string \<Rightarrow> string list" where
  "split sep [] = [[]]"
| "split sep (c # cs) =
    (if c = sep then [] # split sep cs
     else (case split sep cs of
             [] \<Rightarrow> [[c]]
           | p # ps \<Rightarrow> (c # p) # ps))"

definition index :: "'a list \<Rightarrow> nat \<Rightarrow> 'a option" where
  "index xs i = (if i < length xs then Some (xs ! i) else None)"

section \<open>Collaborators\<close>

text \<open>
  The handlers await four collaborators that are not part of \<open>App.tsx\<close>:
  \<open>generateLogoImage\<close>, \<open>generateLogoVideo\<close>, \<open>fileToBase64\<close> and \<open>window.aistudio\<close>.
  An awaited promise is fulfilled with a value or rejected with a thrown value. A thrown
  value is \<open>null\<close> or \<open>undefined\<close> (\<open>Nullish\<close>), on which reading \<open>e.message\<close> throws
  a \<open>TypeError\<close>, or any other value, with its \<open>message\<close> when that is a string and
  \<open>None\<close> when it has none. A \<open>message\<close> that is neither a string nor missing is outside
  the model. A collaborator that throws before it returns a promise is caught by the same
  \<open>catch\<close> and is a rejection too.
\<close>

datatype thrown = Nullish | Thrown "string option"

datatype 'a settled = Fulfilled 'a | Rejected thrown

text \<open>
  The \<open>catch\<close> blocks of lines 90--92 and 126--133 read \<open>e.message\<close>: on a nullish
  \<open>e\<close> they throw themselves, before any state is set, and the promise of the handler
  is rejected after its \<open>finally\<close>.
\<close>

fun catch_throws :: "thrown \<Rightarrow> bool" where
  "catch_throws Nullish = True"
| "catch_throws (Thrown m) = False"

text \<open>The calls a handler can make. A selected file is known by its name.\<close>

datatype call =
    GenerateLogoImage string
  | GenerateLogoVideo string "string option" AspectRatio
  | HasSelectedApiKey
  | OpenSelectKey
  | FileToBase64 string

section \<open>The steps of the handlers\<close>

text \<open>
  A handler runs in steps: from the click to its first \<open>await\<close>, and from the settlement
  of an awaited promise to the next \<open>await\<close> or to its end. The updates of one step are
  rendered together. Each step is a function on the state it finds, which is the state
  at the click for the first step and whatever the page holds at the settlement for a
  later one.
\<close>

subsection \<open>\<open>handleGenerateLogo\<close>, lines 74--96\<close>

text \<open>Lines 79--83, up to the \<open>await\<close>.\<close>

definition logo_dispatch :: "state \<Rightarrow> state" where
  "logo_dispatch s =
    s\<lparr> isGeneratingLogo := True, error := None, generatedLogo := None,
       logoToAnimate := None, generatedVideo := None \<rparr>"

text \<open>The \<open>catch\<close> block, lines 90--92.\<close>

fun logo_catch :: "thrown \<Rightarrow> state \<Rightarrow> state" where
  "logo_catch Nullish s = s"
| "logo_catch (Thrown m) s = s\<lparr> error := Some (message_or m ''Failed to generate logo.'') \<rparr>"

text \<open>Lines 86--95, from the settled promise to the end of \<open>finally\<close>.\<close>

definition logo_settle :: "string settled \<Rightarrow> state \<Rightarrow> state" where
  "logo_settle img s =
    (case img of
       Fulfilled imageB64 \<Rightarrow>
         (let imageUrl = ''data:image/jpeg;base64,'' @ imageB64
          in s\<lparr> generatedLogo := Some imageUrl, logoToAnimate := Some imageUrl \<rparr>)
     | Rejected e \<Rightarrow> logo_catch e s)
    \<lparr> isGeneratingLogo := False \<rparr>"

subsection \<open>\<open>handleGenerateVideo\<close>, lines 98--137\<close>

text \<open>Lines 117--119.\<close>

definition video_dispatch :: "state \<Rightarrow> state" where
  "video_dispatch s = s\<lparr> isGeneratingVideo := True, error := None, generatedVideo := None \<rparr>"

text \<open>The \<open>catch\<close> block, lines 126--133.\<close>

fun video_catch :: "thrown \<Rightarrow> state \<Rightarrow> state" where
  "video_catch Nullish s = s"
| "video_catch (Thrown m) s =
    (let errorMessage = message_or m ''An unknown error occurred during video generation.''
     in if includes_js errorMessage ''Requested entity was not found''
        then s\<lparr> hasApiKey := False,
                error := Some ''API Key not found or invalid. Please re-select your API key.'' \<rparr>
        else s\<lparr> error := Some errorMessage \<rparr>)"

text \<open>The \<open>finally\<close> block, lines 134--136.\<close>

definition video_finally :: "state \<Rightarrow> state" where
  "video_finally s = s\<lparr> isGeneratingVideo := False \<rparr>"

text \<open>
  Lines 110--119, from the settled key query to the second \<open>await\<close>, or to the end of
  \<open>finally\<close> when the video call is not reached.
\<close>

definition video_key_settle :: "bool settled \<Rightarrow> state \<Rightarrow> state" where
  "video_key_settle key s =
    (case key of
       Rejected e \<Rightarrow> video_finally (video_catch e s)
     | Fulfilled keySelected \<Rightarrow>
         (let s1 = s\<lparr> hasApiKey := keySelected \<rparr>
          in if \<not> keySelected
             then video_finally
                    (s1\<lparr> error := Some ''Please select an API key to generate videos.'' \<rparr>)
             else video_dispatch s1))"

text \<open>Lines 124--136, from the settled video call to the end of \<open>finally\<close>.\<close>

definition video_settle :: "string settled \<Rightarrow> state \<Rightarrow> state" where
  "video_settle vid s =
    video_finally
      (case vid of
         Fulfilled videoUrl \<Rightarrow> s\<lparr> generatedVideo := Some videoUrl \<rparr>
       | Rejected e \<Rightarrow> video_catch e s)"

text \<open>
  Line 122, \<open>logoToAnimate.split(',')[1]\<close>: the part of the data URL between its first
  and its second comma, \<open>undefined\<close> when it has no comma. The line is reached with a
  truthy \<open>logoToAnimate\<close> only.
\<close>

definition base64Data :: "string option \<Rightarrow> string option" where
  "base64Data logo =
    (case logo of None \<Rightarrow> None | Some url \<Rightarrow> index (split CHR '','' url) 1)"

text \<open>
  The call of line 123. Its arguments are the values the callback closed over: those of
  the state \<open>seen\<close> that was rendered at the click.
\<close>

definition video_call :: "state \<Rightarrow> call" where
  "video_call seen =
    GenerateLogoVideo (animationPrompt seen) (base64Data (logoToAnimate seen)) (aspectRatio seen)"

subsection \<open>The interval of lines 57--72\<close>

text \<open>\<open>Array.prototype.indexOf\<close>: the first position of the element, \<open>-1\<close> when absent.\<close>

fun indexOf :: "'a list \<Rightarrow> 'a \<Rightarrow> int" where
  "indexOf [] x = - 1"
| "indexOf (y # ys) x =
    (if y = x then 0
     else (let i = indexOf ys x in if i < 0 then - 1 else i + 1))"

text \<open>
  The updater of lines 62--66. \<open>currentIndex + 1\<close> is never negative, so JavaScript's
  \<open>%\<close> is \<open>mod\<close> here, and \<open>nextIndex\<close> is within the list.
\<close>

definition next_message :: "string \<Rightarrow> string" where
  "next_message prev =
    (let currentIndex = indexOf videoLoadingMessages prev;
         nextIndex = (currentIndex + 1) mod int (length videoLoadingMessages)
     in videoLoadingMessages ! nat nextIndex)"

text \<open>One firing of the interval: \<open>setVideoLoadingMessage\<close> with that updater.\<close>

definition interval_callback :: "state \<Rightarrow> state" where
  "interval_callback s = s\<lparr> videoLoadingMessage := next_message (videoLoadingMessage s) \<rparr>"

subsection \<open>\<open>handleFileChange\<close>, \<open>checkApiKey\<close>, \<open>handleSelectKey\<close> and the input fields\<close>

text \<open>Line 143, up to the \<open>await\<close>.\<close>

definition file_start :: "state \<Rightarrow> state" where
  "file_start s = s\<lparr> error := None \<rparr>"

text \<open>Lines 145--150, from the settled encoding to the end. The \<open>catch\<close> does not read \<open>err\<close>.\<close>

definition file_settle :: "string settled \<Rightarrow> state \<Rightarrow> state" where
  "file_settle enc s =
    (case enc of
       Fulfilled base64 \<Rightarrow> s\<lparr> logoToAnimate := Some base64, generatedVideo := None \<rparr>
     | Rejected e \<Rightarrow> s\<lparr> error := Some ''Failed to read the uploaded file.'' \<rparr>)"

text \<open>Lines 156--160, from the settled key query.\<close>

definition check_settle :: "bool settled \<Rightarrow> state \<Rightarrow> state" where
  "check_settle key s =
    (case key of Fulfilled keySelected \<Rightarrow> s\<lparr> hasApiKey := keySelected \<rparr>
               | Rejected e \<Rightarrow> s)"

text \<open>Lines 170--176, from the settled key selection.\<close>

definition select_settle :: "unit settled \<Rightarrow> state \<Rightarrow> state" where
  "select_settle sel s =
    (case sel of
       Fulfilled u \<Rightarrow> s\<lparr> hasApiKey := True, error := None \<rparr>
     | Rejected e \<Rightarrow> s\<lparr> error := Some ''Failed to open API key selector. Please try again.'' \<rparr>)"

text \<open>The \<open>onChange\<close> and \<open>onClick\<close> setters of lines 210, 259, 266 and 267.\<close>

definition setLogoPrompt :: "string \<Rightarrow> state \<Rightarrow> state" where
  "setLogoPrompt v s = s\<lparr> logoPrompt := v \<rparr>"

definition setAnimationPrompt :: "string \<Rightarrow> state \<Rightarrow> state" where
  "setAnimationPrompt v s = s\<lparr> animationPrompt := v \<rparr>"

definition setAspectRatio :: "AspectRatio \<Rightarrow> state \<Rightarrow> state" where
  "setAspectRatio v s = s\<lparr> aspectRatio := v \<rparr>"

section \<open>A handler run on its own\<close>

text \<open>
  What one run of a handler does when nothing else touches the state between its steps:
  the state it leaves, every collaborator call it made, in order, each with the state
  that is rendered while the call is pending, and whether its promise is rejected
  because a \<open>catch\<close> block threw. Each handler takes the way its awaited promises
  settle as arguments. Writes to the console are not recorded.
\<close>

record run =
  result :: state
  pending :: "(call \<times> state) list"
  uncaught :: bool

definition calls :: "run \<Rightarrow> call list" where
  "calls r = map fst (pending r)"

definition rendered :: "run \<Rightarrow> state list" where
  "rendered r = map snd (pending r) @ [result r]"

definition handleGenerateLogo :: "string settled \<Rightarrow> state \<Rightarrow> run" where
  "handleGenerateLogo img s =
    (if blank (logoPrompt s)
     then \<lparr> result = s\<lparr> error := Some ''Please enter a description for your logo.'' \<rparr>,
            pending = [], uncaught = False \<rparr>
     else \<lparr> result = logo_settle img (logo_dispatch s),
            pending = [(GenerateLogoImage (logoPrompt s), logo_dispatch s)],
            uncaught = (case img of Fulfilled imageB64 \<Rightarrow> False | Rejected e \<Rightarrow> catch_throws e) \<rparr>)"

text \<open>
  \<open>key\<close> is how \<open>hasSelectedApiKey()\<close> settles, \<open>vid\<close> how \<open>generateLogoVideo(...)\<close>
  settles, and \<open>ticks\<close> how many times the interval fires while the video call is
  pending.
\<close>

definition handleGenerateVideo :: "bool settled \<Rightarrow> string settled \<Rightarrow> nat \<Rightarrow> state \<Rightarrow> run" where
  "handleGenerateVideo key vid ticks s =
    (if falsy (logoToAnimate s)
     then \<lparr> result = s\<lparr> error := Some ''Please generate or upload a logo to animate.'' \<rparr>,
            pending = [], uncaught = False \<rparr>
     else if blank (animationPrompt s)
     then \<lparr> result = s\<lparr> error := Some ''Please enter a prompt for the animation.'' \<rparr>,
            pending = [], uncaught = False \<rparr>
     else
       (case key of
          Rejected e \<Rightarrow>
            \<lparr> result = video_key_settle key s,
              pending = [(HasSelectedApiKey, s)],
              uncaught = catch_throws e \<rparr>
        | Fulfilled keySelected \<Rightarrow>
            if \<not> keySelected
            then \<lparr> result = video_key_settle key s,
                   pending = [(HasSelectedApiKey, s)],
                   uncaught = False \<rparr>
            else \<lparr> result = video_settle vid ((interval_callback ^^ ticks) (video_key_settle key s)),
                   pending = [(HasSelectedApiKey, s), (video_call s, video_key_settle key s)],
                   uncaught = (case vid of Fulfilled videoUrl \<Rightarrow> False
                                         | Rejected e \<Rightarrow> catch_throws e) \<rparr>))"

text \<open>\<open>chosen\<close> is \<open>event.target.files?.[0]\<close>, \<open>None\<close> when no file was chosen.\<close>

definition handleFileChange :: "string option \<Rightarrow> string settled \<Rightarrow> state \<Rightarrow> run" where
  "handleFileChange chosen enc s =
    (case chosen of
       None \<Rightarrow> \<lparr> result = s, pending = [], uncaught = False \<rparr>
     | Some f \<Rightarrow>
         \<lparr> result = file_settle enc (file_start s),
           pending = [(FileToBase64 f, file_start s)],
           uncaught = False \<rparr>)"

definition checkApiKey :: "bool settled \<Rightarrow> state \<Rightarrow> run" where
  "checkApiKey key s =
    \<lparr> result = check_settle key s, pending = [(HasSelectedApiKey, s)], uncaught = False \<rparr>"

definition handleSelectKey :: "unit settled \<Rightarrow> state \<Rightarrow> run" where
  "handleSelectKey sel s =
    \<lparr> result = select_settle sel s, pending = [(OpenSelectKey, s)], uncaught = False \<rparr>"

section \<open>Sessions in which every handler runs on its own\<close>

text \<open>
  The user's actions, each with the way the collaborators answer it, for the sessions in
  which every call settles before the user's next action.
\<close>

datatype event =
    LogoPromptChange string
  | AnimationPromptChange string
  | AspectRatioClick AspectRatio
  | GenerateLogoClick "string settled"
  | GenerateVideoClick "bool settled" "string settled" nat
  | FileChange "string option" "string settled"
  | SelectKeyClick "unit settled"

text \<open>
  The JSX of lines 206--287: the first panel's field and button are disabled while a logo
  is generated; the second panel's controls exist only when \<open>logoToAnimate\<close> is truthy
  (line 245), its field and buttons are disabled while a video is generated, and it shows
  either the key selection (no key) or the animation button (key).
\<close>

fun enabled :: "event \<Rightarrow> state \<Rightarrow> bool" where
  "enabled (LogoPromptChange v) s = (\<not> isGeneratingLogo s)"
| "enabled (GenerateLogoClick img) s = (\<not> isGeneratingLogo s)"
| "enabled (AnimationPromptChange v) s = (\<not> falsy (logoToAnimate s) \<and> \<not> isGeneratingVideo s)"
| "enabled (AspectRatioClick a) s = (\<not> falsy (logoToAnimate s) \<and> \<not> isGeneratingVideo s)"
| "enabled (FileChange chosen enc) s = (\<not> falsy (logoToAnimate s))"
| "enabled (SelectKeyClick sel) s = (\<not> falsy (logoToAnimate s) \<and> \<not> hasApiKey s)"
| "enabled (GenerateVideoClick key vid ticks) s =
    (\<not> falsy (logoToAnimate s) \<and> hasApiKey s \<and> \<not> isGeneratingVideo s)"

fun step :: "event \<Rightarrow> state \<Rightarrow> state" where
  "step (LogoPromptChange v) s = setLogoPrompt v s"
| "step (AnimationPromptChange v) s = setAnimationPrompt v s"
| "step (AspectRatioClick a) s = setAspectRatio a s"
| "step (GenerateLogoClick img) s = result (handleGenerateLogo img s)"
| "step (GenerateVideoClick key vid ticks) s = result (handleGenerateVideo key vid ticks s)"
| "step (FileChange chosen enc) s = result (handleFileChange chosen enc s)"
| "step (SelectKeyClick sel) s = result (handleSelectKey sel s)"

text \<open>A session is a list of actions; it is \<open>None\<close> when the page does not offer one of them.\<close>

fun session :: "event list \<Rightarrow> state \<Rightarrow> state option" where
  "session [] s = Some s"
| "session (e # es) s = (if enabled e s then session es (step e s) else None)"

text \<open>The state after mounting: the effect of lines 163--165 has run \<open>checkApiKey\<close>.\<close>

definition mounted_state :: "bool settled \<Rightarrow> state" where
  "mounted_state key = result (checkApiKey key initial_state)"

section \<open>The effect of lines 57--72 and the browser's intervals\<close>

text \<open>
  The browser's table of live intervals: the handle and the delay (in milliseconds) of
  each. \<open>setInterval\<close> returns a fresh handle, which is a positive number.
\<close>

record timer_table =
  live :: "(nat \<times> nat) list"
  next_handle :: nat

definition no_timers :: timer_table where
  "no_timers = \<lparr> live = [], next_handle = 1 \<rparr>"

definition setInterval :: "nat \<Rightarrow> timer_table \<Rightarrow> nat \<times> timer_table" where
  "setInterval delay t =
    (next_handle t,
     t\<lparr> live := live t @ [(next_handle t, delay)], next_handle := Suc (next_handle t) \<rparr>)"

definition clearInterval :: "nat \<Rightarrow> timer_table \<Rightarrow> timer_table" where
  "clearInterval h t = t\<lparr> live := filter (\<lambda>entry. fst entry \<noteq> h) (live t) \<rparr>"

text \<open>
  The body of the effect, lines 59--68, for the \<open>isGeneratingVideo\<close> of the render it
  belongs to. It returns the variable \<open>interval\<close> that the cleanup closes over,
  \<open>None\<close> while it is \<open>undefined\<close>.
\<close>

definition effect :: "bool \<Rightarrow> timer_table \<Rightarrow> nat option \<times> timer_table" where
  "effect generating t =
    (if generating
     then (case setInterval 4000 t of (h, t') \<Rightarrow> (Some h, t'))
     else (None, t))"

text \<open>The cleanup, lines 69--71: \<open>if (interval)\<close> is false for \<open>undefined\<close> and for \<open>0\<close>.\<close>

definition cleanup :: "nat option \<Rightarrow> timer_table \<Rightarrow> timer_table" where
  "cleanup interval t =
    (case interval of
       None \<Rightarrow> t
     | Some h \<Rightarrow> if h \<noteq> 0 then clearInterval h t else t)"

text \<open>
  The mounted component: the state of its last render, the \<open>interval\<close> variable of the
  effect's last run, and the browser's intervals. React runs the effect after the first
  render, and after a later render whose \<open>isGeneratingVideo\<close> differs from that of the
  render before (the dependency list of line 72), the cleanup of the previous run first;
  on unmount it runs the cleanup.
\<close>

record component =
  view :: state
  interval :: "nat option"
  timers :: timer_table
  mounted :: bool

definition mount :: "state \<Rightarrow> component" where
  "mount s =
    (case effect (isGeneratingVideo s) no_timers of
       (iv, t) \<Rightarrow> \<lparr> view = s, interval = iv, timers = t, mounted = True \<rparr>)"

definition render :: "state \<Rightarrow> component \<Rightarrow> component" where
  "render s c =
    (if \<not> mounted c then c
     else if isGeneratingVideo s = isGeneratingVideo (view c) then c\<lparr> view := s \<rparr>
     else (case effect (isGeneratingVideo s) (cleanup (interval c) (timers c)) of
             (iv, t) \<Rightarrow> c\<lparr> view := s, interval := iv, timers := t \<rparr>))"

definition unmount :: "component \<Rightarrow> component" where
  "unmount c =
    (if \<not> mounted c then c
     else c\<lparr> timers := cleanup (interval c) (timers c), mounted := False \<rparr>)"

text \<open>
  The browser fires the interval with handle \<open>h\<close>, if it is live: the callback of
  lines 62--66 updates the state, and the component renders again.
\<close>

definition fire :: "nat \<Rightarrow> component \<Rightarrow> component" where
  "fire h c =
    (if h \<in> set (map fst (live (timers c)))
     then render (interval_callback (view c)) c
     else c)"

section \<open>The page: handlers whose steps interleave\<close>

text \<open>
  While a call is pending the page stays live: the user acts, other calls settle, the
  interval fires. The page is the component together with the calls that are pending,
  each with the handler step that its settlement resumes, the calls made so far, and the
  number of handler promises that were rejected.
\<close>

datatype task =
    ImageTask
  | VideoKeyTask state
  | VideoTask state
  | FileTask
  | CheckTask
  | SelectTask

text \<open>
  \<open>VideoKeyTask seen\<close> is the key query of \<open>handleGenerateVideo\<close> and \<open>VideoTask seen\<close>
  its video call; \<open>seen\<close> is the state rendered at the click, whose \<open>logoToAnimate\<close>,
  \<open>animationPrompt\<close> and \<open>aspectRatio\<close> the callback closed over (line 137).
\<close>

record page =
  app :: component
  tasks :: "task list"
  made :: "call list"
  rejections :: nat

definition ui :: "page \<Rightarrow> state" where
  "ui p = view (app p)"

datatype gesture =
    TypeLogoPrompt string
  | TypeAnimationPrompt string
  | PickAspectRatio AspectRatio
  | PressGenerateLogo
  | PressGenerateVideo
  | ChooseFile "string option"
  | PressSelectKey

text \<open>What the JSX of lines 206--287 offers in a state, as in \<open>enabled\<close>.\<close>

fun offered :: "gesture \<Rightarrow> state \<Rightarrow> bool" where
  "offered (TypeLogoPrompt v) s = (\<not> isGeneratingLogo s)"
| "offered PressGenerateLogo s = (\<not> isGeneratingLogo s)"
| "offered (TypeAnimationPrompt v) s = (\<not> falsy (logoToAnimate s) \<and> \<not> isGeneratingVideo s)"
| "offered (PickAspectRatio a) s = (\<not> falsy (logoToAnimate s) \<and> \<not> isGeneratingVideo s)"
| "offered (ChooseFile chosen) s = (\<not> falsy (logoToAnimate s))"
| "offered PressSelectKey s = (\<not> falsy (logoToAnimate s) \<and> \<not> hasApiKey s)"
| "offered PressGenerateVideo s =
    (\<not> falsy (logoToAnimate s) \<and> hasApiKey s \<and> \<not> isGeneratingVideo s)"

text \<open>
  The first step of the handler of a gesture: the state it renders, the call it leaves
  pending, and the call it made.
\<close>

fun press :: "gesture \<Rightarrow> state \<Rightarrow> state \<times> task list \<times> call list" where
  "press (TypeLogoPrompt v) s = (setLogoPrompt v s, [], [])"
| "press (TypeAnimationPrompt v) s = (setAnimationPrompt v s, [], [])"
| "press (PickAspectRatio a) s = (setAspectRatio a s, [], [])"
| "press PressGenerateLogo s =
    (if blank (logoPrompt s)
     then (s\<lparr> error := Some ''Please enter a description for your logo.'' \<rparr>, [], [])
     else (logo_dispatch s, [ImageTask], [GenerateLogoImage (logoPrompt s)]))"
| "press PressGenerateVideo s =
    (if falsy (logoToAnimate s)
     then (s\<lparr> error := Some ''Please generate or upload a logo to animate.'' \<rparr>, [], [])
     else if blank (animationPrompt s)
     then (s\<lparr> error := Some ''Please enter a prompt for the animation.'' \<rparr>, [], [])
     else (s, [VideoKeyTask s], [HasSelectedApiKey]))"
| "press (ChooseFile chosen) s =
    (case chosen of
       None \<Rightarrow> (s, [], [])
     | Some f \<Rightarrow> (file_start s, [FileTask], [FileToBase64 f]))"
| "press PressSelectKey s = (s, [SelectTask], [OpenSelectKey])"

text \<open>The settlement of a pending call, by the kind of its value.\<close>

datatype settlement =
    ImageSettles "string settled"
  | KeySettles "bool settled"
  | VideoSettles "string settled"
  | FileSettles "string settled"
  | SelectSettles "unit settled"

text \<open>
  The step that a settlement resumes, on the state \<open>s\<close> that the page holds then: the
  state it renders, the call it leaves pending, the call it made, and whether the
  handler's promise is rejected. A settlement of the wrong kind for the call is \<open>None\<close>.
\<close>

fun resume :: "task \<Rightarrow> settlement \<Rightarrow> state \<Rightarrow> (state \<times> task list \<times> call list \<times> bool) option" where
  "resume ImageTask (ImageSettles img) s =
    Some (logo_settle img s, [], [],
          (case img of Fulfilled imageB64 \<Rightarrow> False | Rejected e \<Rightarrow> catch_throws e))"
| "resume (VideoKeyTask seen) (KeySettles key) s =
    Some (video_key_settle key s,
          (if key = Fulfilled True then [VideoTask seen] else []),
          (if key = Fulfilled True then [video_call seen] else []),
          (case key of Fulfilled keySelected \<Rightarrow> False | Rejected e \<Rightarrow> catch_throws e))"
| "resume (VideoTask seen) (VideoSettles vid) s =
    Some (video_settle vid s, [], [],
          (case vid of Fulfilled videoUrl \<Rightarrow> False | Rejected e \<Rightarrow> catch_throws e))"
| "resume FileTask (FileSettles enc) s = Some (file_settle enc s, [], [], False)"
| "resume CheckTask (KeySettles key) s = Some (check_settle key s, [], [], False)"
| "resume SelectTask (SelectSettles sel) s = Some (select_settle sel s, [], [], False)"
| "resume t r s = None"

text \<open>
  What can happen next on a page: a gesture that the rendered state offers, the
  settlement of the pending call at a position, the firing of a live interval, and the
  unmounting of the component. After the unmount the pending calls still settle and
  their handlers go on, but their updates of the state are dropped.
\<close>

datatype move = User gesture | Settle nat settlement | Tick nat | Leave

fun play1 :: "move \<Rightarrow> page \<Rightarrow> page option" where
  "play1 (User g) p =
    (if mounted (app p) \<and> offered g (ui p)
     then (case press g (ui p) of
             (s', ts, cs) \<Rightarrow>
               Some (p\<lparr> app := render s' (app p), tasks := tasks p @ ts, made := made p @ cs \<rparr>))
     else None)"
| "play1 (Settle k r) p =
    (if k < length (tasks p)
     then (case resume (tasks p ! k) r (ui p) of
             None \<Rightarrow> None
           | Some (s', ts, cs, rejected) \<Rightarrow>
               Some (p\<lparr> app := render s' (app p),
                        tasks := take k (tasks p) @ drop (Suc k) (tasks p) @ ts,
                        made := made p @ cs,
                        rejections := rejections p + (if rejected then 1 else 0) \<rparr>))
     else None)"
| "play1 (Tick h) p =
    (if h \<in> set (map fst (live (timers (app p))))
     then Some (p\<lparr> app := fire h (app p) \<rparr>)
     else None)"
| "play1 Leave p =
    (if mounted (app p) then Some (p\<lparr> app := unmount (app p) \<rparr>) else None)"

text \<open>The firings among the moves of a run.\<close>

fun is_tick :: "move \<Rightarrow> bool" where
  "is_tick (Tick h) = True"
| "is_tick m = False"

definition ticks_in :: "move list \<Rightarrow> nat" where
  "ticks_in ms = length (filter is_tick ms)"

fun play :: "move list \<Rightarrow> page \<Rightarrow> page option" where
  "play [] p = Some p"
| "play (m # ms) p = (case play1 m p of None \<Rightarrow> None | Some p' \<Rightarrow> play ms p')"

text \<open>
  A run in which the user waits: every gesture is made while no call is pending.
\<close>

fun is_gesture :: "move \<Rightarrow> bool" where
  "is_gesture (User g) = True"
| "is_gesture m = False"

fun patient :: "move list \<Rightarrow> page \<Rightarrow> bool" where
  "patient [] p = True"
| "patient (m # ms) p =
    ((if is_gesture m then tasks p = [] else True)
     \<and> (case play1 m p of None \<Rightarrow> True | Some p' \<Rightarrow> patient ms p'))"

text \<open>
  The page at mount: the first render of the initial state, with the key query of the
  effect of lines 163--165 pending.
\<close>

definition opened :: page where
  "opened = \<lparr> app = mount initial_state, tasks = [CheckTask], made = [HasSelectedApiKey],
              rejections = 0 \<rparr>"

section \<open>A state to run the handlers on\<close>

text \<open>
  A logo has been generated for the prompt ``red circle'', a key is selected, and the
  animation is set to ``spin'' in portrait format.
\<close>

definition logo_ready :: state where
  "logo_ready =
    \<lparr> logoPrompt = ''red circle'',
      animationPrompt = ''spin'',
      generatedLogo = Some ''data:image/jpeg;base64,UA=='',
      generatedVideo = None,
      logoToAnimate = Some ''data:image/jpeg;base64,UA=='',
      isGeneratingLogo = False,
      isGeneratingVideo = False,
      error = None,
      aspectRatio = Portrait_9_16,
      hasApiKey = True,
      videoLoadingMessage = ''Warming up the animation engine...'' \<rparr>"

text \<open>
  The same state after a video has been generated from it, the interval having fired
  twice while the video call was pending.
\<close>

definition video_ready :: state where
  "video_ready =
    logo_ready\<lparr> generatedVideo := Some ''blob:V'',
                videoLoadingMessage := ''Composing a symphony of light and motion...'' \<rparr>"

text \<open>
  The page that shows the first state, with no call pending: it is reached from the mount
  by a key query that answers \<open>true\<close>, a logo for ``red circle'', and the settings of
  the animation.
\<close>

definition ready_page :: page where
  "ready_page =
    \<lparr> app = \<lparr> view = logo_ready, interval = None, timers = no_timers, mounted = True \<rparr>,
      tasks = [],
      made = [HasSelectedApiKey, GenerateLogoImage ''red circle''],
      rejections = 0 \<rparr>"

text \<open>
  The same page after a click on the animation button: the key query of line 110 is
  pending.
\<close>

definition asking_page :: page where
  "asking_page =
    ready_page\<lparr> tasks := [VideoKeyTask logo_ready],
                made := made ready_page @ [HasSelectedApiKey] \<rparr>"

text \<open>
  The same page after a click on the animation button and a key query that answers
  \<open>true\<close>: the video call is pending, and the interval is live.
\<close>

definition animating_page :: page where
  "animating_page =
    \<lparr> app = \<lparr> view = logo_ready\<lparr> isGeneratingVideo := True \<rparr>, interval = Some 1,
              timers = \<lparr> live = [(1, 4000)], next_handle = 2 \<rparr>, mounted = True \<rparr>,
      tasks = [VideoTask logo_ready],
      made = [HasSelectedApiKey, GenerateLogoImage ''red circle'', HasSelectedApiKey,
              GenerateLogoVideo ''spin'' (Some ''UA=='') Portrait_9_16],
      rejections = 0 \<rparr>"

text \<open>
  The page with the video call pending after a click on the logo button, which lines
  211 and 215 disable only while a logo is generated.
\<close>

definition relogo_page :: page where
  "relogo_page =
    animating_page
      \<lparr> app := (app animating_page)
                 \<lparr> view := logo_dispatch (logo_ready\<lparr> isGeneratingVideo := True \<rparr>) \<rparr>,
        tasks := [VideoTask logo_ready, ImageTask],
        made := made animating_page @ [GenerateLogoImage ''red circle''] \<rparr>"

text \<open>
  The page with the video call pending after the file \<open>new.png\<close> has been chosen in the
  upload field, which lines 249--252 never disable.
\<close>

definition uploading_page :: page where
  "uploading_page =
    animating_page
      \<lparr> tasks := [VideoTask logo_ready, FileTask],
        made := made animating_page @ [FileToBase64 ''new.png''] \<rparr>"

text \<open>
  The page after the interval has fired twice and the video call has been fulfilled: it
  shows the video, and the interval is cleared.
\<close>

definition shown_page :: page where
  "shown_page =
    \<lparr> app = \<lparr> view = video_ready, interval = None,
              timers = \<lparr> live = [], next_handle = 2 \<rparr>, mounted = True \<rparr>,
      tasks = [],
      made = made animating_page,
      rejections = 0 \<rparr>"

text \<open>
  That page after another click on the animation button and a key query that answers
  \<open>true\<close>: the second video call is pending, with a new interval.
\<close>

definition again_page :: page where
  "again_page =
    \<lparr> app = \<lparr> view = video_ready\<lparr> isGeneratingVideo := True, generatedVideo := None \<rparr>,
              interval = Some 2,
              timers = \<lparr> live = [(2, 4000)], next_handle = 3 \<rparr>, mounted = True \<rparr>,
      tasks = [VideoTask video_ready],
      made = made animating_page
               @ [HasSelectedApiKey, GenerateLogoVideo ''spin'' (Some ''UA=='') Portrait_9_16],
      rejections = 0 \<rparr>"

section \<open>Properties that proofs carry along\<close>

text \<open>
  A pending key query or video call of \<open>handleGenerateVideo\<close> carries the state \<open>seen\<close>.
\<close>

definition carries :: "state \<Rightarrow> task list \<Rightarrow> bool" where
  "carries seen ts = (VideoKeyTask seen \<in> set ts \<or> VideoTask seen \<in> set ts)"



text \<open>
  The request behind the video on the page: the state carried by the video call whose
  fulfilment was rendered last, with the value of that fulfilment.
\<close>

fun source1 :: "move \<Rightarrow> page \<Rightarrow> (state \<times> string) option \<Rightarrow> (state \<times> string) option" where
  "source1 (Settle k (VideoSettles (Fulfilled videoUrl))) p src =
    (if mounted (app p) \<and> k < length (tasks p)
     then (case tasks p ! k of VideoTask seen \<Rightarrow> Some (seen, videoUrl) | _ \<Rightarrow> src)
     else src)"
| "source1 m p src = src"

fun video_source ::
  "move list \<Rightarrow> page \<Rightarrow> (state \<times> string) option \<Rightarrow> (state \<times> string) option" where
  "video_source [] p src = src"
| "video_source (m # ms) p src =
    (case play1 m p of None \<Rightarrow> src | Some p' \<Rightarrow> video_source ms p' (source1 m p src))"

text \<open>
  What holds of the page along a run in which the user waits: at most one call is
  pending; a pending request for a video was made from the \<open>logoToAnimate\<close> that the
  page still shows, and its video call is among the calls made; no video is shown while
  an image call is pending; and a video that is shown is the one of the request behind
  it, made from the \<open>logoToAnimate\<close> that the page still shows.
\<close>

definition paired :: "page \<Rightarrow> (state \<times> string) option \<Rightarrow> bool" where
  "paired p src =
    (length (tasks p) \<le> 1
     \<and> (\<forall>seen. carries seen (tasks p) \<longrightarrow> logoToAnimate seen = logoToAnimate (ui p))
     \<and> (\<forall>seen. VideoTask seen \<in> set (tasks p) \<longrightarrow> video_call seen \<in> set (made p))
     \<and> (ImageTask \<in> set (tasks p) \<longrightarrow> generatedVideo (ui p) = None)
     \<and> (\<forall>v. generatedVideo (ui p) = Some v \<longrightarrow>
           (\<exists>s1. src = Some (s1, v) \<and> logoToAnimate s1 = logoToAnimate (ui p)
              \<and> video_call s1 \<in> set (made p))))"

text \<open>
  What holds of the component after every render, firing and unmount: handles are
  positive, and the browser's table holds exactly the interval of the effect's last run
  while the component is mounted with \<open>isGeneratingVideo\<close> set, and nothing otherwise.
\<close>

definition one_interval :: "component \<Rightarrow> bool" where
  "one_interval c =
    (0 < next_handle (timers c) \<and>
     (if mounted c \<and> isGeneratingVideo (view c)
      then \<exists>h. 0 < h \<and> interval c = Some h \<and> live (timers c) = [(h, 4000)]
      else live (timers c) = [] \<and> (mounted c \<longrightarrow> interval c = None)))"

section \<open>Facts about the string operations and the example state\<close>

lemma dropWhile_all_iff: "(\<forall>x\<in>set (dropWhile P xs). P x) = (dropWhile P xs = [])"
proof (cases "dropWhile P xs")
  case Nil
  show ?thesis unfolding Nil by simp
next
  case (Cons y ys)
  then have "\<not> P (hd (dropWhile P xs))" by (metis hd_dropWhile list.distinct(1))
  with Cons show ?thesis by auto
qed

lemma blank_iff: "blank s = (\<forall>c\<in>set s. is_js_whitespace c)"
  by (simp add: blank_def trim_def dropWhile_eq_Nil_conv dropWhile_all_iff)

lemma falsy_simps [simp]: "falsy None = True" "falsy (Some v) = (v = [])"
  by (simp_all add: falsy_def)

lemma not_blank_red_circle [simp]: "\<not> blank ''red circle''"
  by (simp add: blank_def trim_def is_js_whitespace_def)

lemma not_blank_spin [simp]: "\<not> blank ''spin''"
  by (simp add: blank_def trim_def is_js_whitespace_def)

lemma blank_spaces [simp]: "blank ''  ''"
  by (simp add: blank_def trim_def is_js_whitespace_def)

lemma logo_ready_reached:
  "session [LogoPromptChange ''red circle'', GenerateLogoClick (Fulfilled ''UA==''),
            AnimationPromptChange ''spin'', AspectRatioClick Portrait_9_16]
     (mounted_state (Fulfilled True)) = Some logo_ready"
  by (simp add: mounted_state_def checkApiKey_def check_settle_def initial_state_def
        setLogoPrompt_def handleGenerateLogo_def logo_settle_def logo_dispatch_def
        setAnimationPrompt_def setAspectRatio_def logo_ready_def
        videoLoadingMessages_def Let_def)

lemma logo_ready_fields [simp]:
  "logoPrompt logo_ready = ''red circle''"
  "animationPrompt logo_ready = ''spin''"
  "generatedVideo logo_ready = None"
  "logoToAnimate logo_ready = Some ''data:image/jpeg;base64,UA==''"
  "isGeneratingLogo logo_ready = False"
  "isGeneratingVideo logo_ready = False"
  "error logo_ready = None"
  "aspectRatio logo_ready = Portrait_9_16"
  "hasApiKey logo_ready = True"
  "videoLoadingMessage logo_ready = ''Warming up the animation engine...''"
  by (simp_all add: logo_ready_def)

section \<open>Facts about the steps of the handlers\<close>

lemma ticks_fields [simp]:
  "isGeneratingVideo ((interval_callback ^^ n) s) = isGeneratingVideo s"
  "isGeneratingLogo ((interval_callback ^^ n) s) = isGeneratingLogo s"
  "generatedVideo ((interval_callback ^^ n) s) = generatedVideo s"
  "hasApiKey ((interval_callback ^^ n) s) = hasApiKey s"
  "logoToAnimate ((interval_callback ^^ n) s) = logoToAnimate s"
  "error ((interval_callback ^^ n) s) = error s"
  by (induction n) (simp_all add: interval_callback_def)

lemma videoLoadingMessage_ticks:
  "videoLoadingMessage ((interval_callback ^^ n) s) = (next_message ^^ n) (videoLoadingMessage s)"
  by (induction n) (simp_all add: interval_callback_def)

lemma logo_catch_other [simp]:
  "isGeneratingVideo (logo_catch e s) = isGeneratingVideo s"
  "isGeneratingLogo (logo_catch e s) = isGeneratingLogo s"
  "generatedVideo (logo_catch e s) = generatedVideo s"
  "generatedLogo (logo_catch e s) = generatedLogo s"
  "logoToAnimate (logo_catch e s) = logoToAnimate s"
  "hasApiKey (logo_catch e s) = hasApiKey s"
  "videoLoadingMessage (logo_catch e s) = videoLoadingMessage s"
  by (cases e; simp)+

lemma isGeneratingVideo_finally [simp]: "\<not> isGeneratingVideo (video_finally s)"
  by (simp add: video_finally_def)

lemma isGeneratingLogo_settle [simp]: "\<not> isGeneratingLogo (logo_settle img s)"
  by (simp add: logo_settle_def)

lemma isGeneratingVideo_settle [simp]: "\<not> isGeneratingVideo (video_settle vid s)"
  by (simp add: video_settle_def)

lemma includes_js_Nil [simp]: "includes_js [] (p # ps) = False"
  by simp

lemma includes_js_nonempty: "includes_js v (p # ps) \<Longrightarrow> v \<noteq> []"
  by auto

lemma fallback_has_no_signature:
  "\<not> includes_js ''An unknown error occurred during video generation.''
        ''Requested entity was not found''"
  by simp

lemma video_catch_error:
  "error (video_catch (Thrown m) s) =
    Some (if includes_js (message_or m ''An unknown error occurred during video generation.'')
               ''Requested entity was not found''
          then ''API Key not found or invalid. Please re-select your API key.''
          else message_or m ''An unknown error occurred during video generation.'')"
  by (simp add: Let_def)

lemma video_catch_hasApiKey:
  "hasApiKey (video_catch (Thrown m) s) =
    (if includes_js (message_or m ''An unknown error occurred during video generation.'')
               ''Requested entity was not found''
     then False else hasApiKey s)"
  by (simp add: Let_def)

lemma video_catch_other [simp]:
  "generatedVideo (video_catch e s) = generatedVideo s"
  "isGeneratingVideo (video_catch e s) = isGeneratingVideo s"
  "isGeneratingLogo (video_catch e s) = isGeneratingLogo s"
  "logoToAnimate (video_catch e s) = logoToAnimate s"
  "videoLoadingMessage (video_catch e s) = videoLoadingMessage s"
  by (cases e; simp add: Let_def)+

lemma video_finally_fields [simp]:
  "generatedVideo (video_finally s) = generatedVideo s"
  "error (video_finally s) = error s"
  "hasApiKey (video_finally s) = hasApiKey s"
  "logoToAnimate (video_finally s) = logoToAnimate s"
  "isGeneratingLogo (video_finally s) = isGeneratingLogo s"
  "videoLoadingMessage (video_finally s) = videoLoadingMessage s"
  by (simp_all add: video_finally_def)

text \<open>The ways a run of \<open>handleGenerateVideo\<close> that passes validation can go.\<close>

lemma video_run_key_rejected:
  "\<not> falsy (logoToAnimate s) \<Longrightarrow> \<not> blank (animationPrompt s) \<Longrightarrow>
   handleGenerateVideo (Rejected e) vid ticks s =
     \<lparr> result = video_finally (video_catch e s), pending = [(HasSelectedApiKey, s)],
       uncaught = catch_throws e \<rparr>"
  by (simp add: handleGenerateVideo_def video_key_settle_def)

lemma video_run_no_key:
  "\<not> falsy (logoToAnimate s) \<Longrightarrow> \<not> blank (animationPrompt s) \<Longrightarrow>
   handleGenerateVideo (Fulfilled False) vid ticks s =
     \<lparr> result = video_finally
         (s\<lparr> hasApiKey := False, error := Some ''Please select an API key to generate videos.'' \<rparr>),
       pending = [(HasSelectedApiKey, s)], uncaught = False \<rparr>"
  by (simp add: handleGenerateVideo_def video_key_settle_def)

lemma video_run_dispatched:
  "\<not> falsy (logoToAnimate s) \<Longrightarrow> \<not> blank (animationPrompt s) \<Longrightarrow>
   handleGenerateVideo (Fulfilled True) vid ticks s =
     \<lparr> result = video_settle vid
         ((interval_callback ^^ ticks) (video_dispatch (s\<lparr> hasApiKey := True \<rparr>))),
       pending = [(HasSelectedApiKey, s),
                  (GenerateLogoVideo (animationPrompt s) (base64Data (logoToAnimate s)) (aspectRatio s),
                   video_dispatch (s\<lparr> hasApiKey := True \<rparr>))],
       uncaught = (case vid of Fulfilled videoUrl \<Rightarrow> False | Rejected e \<Rightarrow> catch_throws e) \<rparr>"
  by (simp add: handleGenerateVideo_def video_key_settle_def video_call_def)

lemma video_run_invalid:
  "falsy (logoToAnimate s) \<or> blank (animationPrompt s) \<Longrightarrow>
   generatedVideo (result (handleGenerateVideo key vid ticks s)) = generatedVideo s
   \<and> logoToAnimate (result (handleGenerateVideo key vid ticks s)) = logoToAnimate s
   \<and> calls (handleGenerateVideo key vid ticks s) = []"
  by (auto simp: handleGenerateVideo_def calls_def)

section \<open>Facts about the status messages\<close>

lemma isGeneratingVideo_callback [simp]:
  "isGeneratingVideo (interval_callback s) = isGeneratingVideo s"
  by (simp add: interval_callback_def)

lemma length_messages [simp]: "length videoLoadingMessages = 6"
  by (simp add: videoLoadingMessages_def)

lemma next_message_cycle:
  "i < 6 \<Longrightarrow> next_message (videoLoadingMessages ! i) = videoLoadingMessages ! ((i + 1) mod 6)"
proof -
  assume "i < 6"
  then consider "i = 0" | "i = 1" | "i = 2" | "i = 3" | "i = 4" | "i = 5" by linarith
  then show ?thesis
    by cases (simp_all add: next_message_def videoLoadingMessages_def)
qed

lemma next_message_values [simp]:
  "next_message ''Warming up the animation engine...'' = ''Teaching the pixels to dance...''"
  "next_message ''Teaching the pixels to dance...'' = ''Composing a symphony of light and motion...''"
  "next_message ''Composing a symphony of light and motion...'' = ''This can take a few minutes, please be patient...''"
  "next_message ''This can take a few minutes, please be patient...'' = ''Rendering the final masterpiece...''"
  "next_message ''Rendering the final masterpiece...'' = ''Almost there, adding the final sparkle...''"
  "next_message ''Almost there, adding the final sparkle...'' = ''Warming up the animation engine...''"
  by (simp_all add: next_message_def videoLoadingMessages_def)

lemma video_ready_made:
  "handleGenerateVideo (Fulfilled True) (Fulfilled ''blob:V'') 2 logo_ready =
     \<lparr> result = video_ready,
       pending = [(HasSelectedApiKey, logo_ready),
                  (GenerateLogoVideo ''spin'' (Some ''UA=='') Portrait_9_16,
                   logo_ready\<lparr> isGeneratingVideo := True \<rparr>)],
       uncaught = False \<rparr>"
  by (simp add: video_run_dispatched video_ready_def base64Data_def index_def video_dispatch_def
        video_settle_def video_finally_def interval_callback_def eval_nat_numeral logo_ready_def)

section \<open>Facts about sessions in which every handler runs on its own\<close>

lemma step_keeps_flags_clear:
  assumes "\<not> isGeneratingLogo s" "\<not> isGeneratingVideo s"
  shows "\<not> isGeneratingLogo (step e s) \<and> \<not> isGeneratingVideo (step e s)"
proof (cases e)
  case (GenerateLogoClick img)
  with assms show ?thesis
    by (auto simp: handleGenerateLogo_def logo_settle_def logo_dispatch_def Let_def
             split: settled.splits thrown.splits)
next
  case (GenerateVideoClick key vid ticks)
  have "isGeneratingLogo (result (handleGenerateVideo key vid ticks s)) = isGeneratingLogo s"
    by (auto simp: handleGenerateVideo_def video_key_settle_def video_settle_def
          video_dispatch_def Let_def split: settled.splits)
  moreover have "\<not> isGeneratingVideo (result (handleGenerateVideo key vid ticks s))"
    using assms(2)
    by (auto simp: handleGenerateVideo_def video_key_settle_def Let_def split: settled.splits)
  ultimately show ?thesis using assms GenerateVideoClick by simp
next
  case (FileChange chosen enc)
  with assms show ?thesis
    by (cases chosen; cases enc) (auto simp: handleFileChange_def file_settle_def file_start_def)
next
  case (SelectKeyClick sel)
  with assms show ?thesis by (cases sel) (auto simp: handleSelectKey_def select_settle_def)
qed (use assms in \<open>auto simp: setLogoPrompt_def setAnimationPrompt_def setAspectRatio_def\<close>)

lemma session_keeps_flags_clear:
  "session es s = Some s' \<Longrightarrow> \<not> isGeneratingLogo s \<Longrightarrow> \<not> isGeneratingVideo s \<Longrightarrow>
   \<not> isGeneratingLogo s' \<and> \<not> isGeneratingVideo s'"
proof (induction es arbitrary: s)
  case Nil
  then show ?case by simp
next
  case (Cons e es)
  from Cons.prems(1) have rest: "session es (step e s) = Some s'"
    by (simp split: if_splits)
  from step_keeps_flags_clear [OF Cons.prems(2,3), of e]
  have "\<not> isGeneratingLogo (step e s)" "\<not> isGeneratingVideo (step e s)" by simp_all
  with Cons.IH [OF rest] show ?case by simp
qed

lemma mounted_state_flags:
  "\<not> isGeneratingLogo (mounted_state key) \<and> \<not> isGeneratingVideo (mounted_state key)"
  by (cases key) (simp_all add: mounted_state_def checkApiKey_def check_settle_def initial_state_def)

lemma video_ready_reached:
  "session [LogoPromptChange ''red circle'', GenerateLogoClick (Fulfilled ''UA==''),
            AnimationPromptChange ''spin'', AspectRatioClick Portrait_9_16,
            GenerateVideoClick (Fulfilled True) (Fulfilled ''blob:V'') 2]
     (mounted_state (Fulfilled True)) = Some video_ready"
  by (simp add: mounted_state_def checkApiKey_def check_settle_def initial_state_def
        setLogoPrompt_def handleGenerateLogo_def logo_settle_def logo_dispatch_def
        setAnimationPrompt_def setAspectRatio_def
        videoLoadingMessages_def Let_def video_ready_made [unfolded logo_ready_def]
        video_ready_def logo_ready_def)

section \<open>Facts about the component and its interval\<close>

lemma one_interval_mount: "one_interval (mount s)"
  by (simp add: one_interval_def mount_def effect_def setInterval_def no_timers_def)

lemma one_interval_render:
  assumes "one_interval c"
  shows "one_interval (render s c)"
proof (cases "mounted c")
  case False
  with assms show ?thesis by (simp add: render_def)
next
  case True
  show ?thesis
  proof (cases "isGeneratingVideo s = isGeneratingVideo (view c)")
    case same: True
    with assms True show ?thesis by (auto simp: render_def one_interval_def)
  next
    case differs: False
    show ?thesis
    proof (cases "isGeneratingVideo s")
      case starts: True
      with differs have "\<not> isGeneratingVideo (view c)" by simp
      with assms True starts show ?thesis
        by (simp add: render_def one_interval_def cleanup_def effect_def setInterval_def)
    next
      case stops: False
      with differs have "isGeneratingVideo (view c)" by simp
      with assms True stops show ?thesis
        by (auto simp: render_def one_interval_def cleanup_def effect_def clearInterval_def)
    qed
  qed
qed

lemma one_interval_unmount: "one_interval c \<Longrightarrow> one_interval (unmount c)"
  by (auto simp: unmount_def one_interval_def cleanup_def clearInterval_def split: if_splits)

lemma one_interval_fire: "one_interval c \<Longrightarrow> one_interval (fire h c)"
  by (simp add: fire_def one_interval_render)

lemma one_interval_live:
  "one_interval c \<Longrightarrow>
   map snd (live (timers c)) = (if mounted c \<and> isGeneratingVideo (view c) then [4000] else [])"
  by (auto simp: one_interval_def)

lemma mounted_render [simp]: "mounted (render s c) = mounted c"
  by (simp add: render_def split: prod.splits)

lemma mounted_fire [simp]: "mounted (fire h c) = mounted c"
  by (simp add: fire_def)

lemma mounted_unmount [simp]: "mounted (unmount c) = False"
  by (simp add: unmount_def)

lemma fire_idle: "live (timers c) = [] \<Longrightarrow> fire h c = c"
  by (simp add: fire_def)

lemma view_render: "view (render s c) = (if mounted c then s else view c)"
  by (simp add: render_def split: prod.splits)

lemma fire_live:
  assumes "one_interval c" "h \<in> set (map fst (live (timers c)))"
  shows "mounted c \<and> isGeneratingVideo (view c)
         \<and> fire h c = c\<lparr> view := interval_callback (view c) \<rparr>"
proof -
  from assms have busy: "mounted c \<and> isGeneratingVideo (view c)"
    by (auto simp: one_interval_def split: if_splits)
  with assms(2) show ?thesis by (simp add: fire_def render_def)
qed

section \<open>Facts about pages\<close>

lemma play_append:
  "play (ms @ ns) p = (case play ms p of None \<Rightarrow> None | Some q \<Rightarrow> play ns q)"
  by (induction ms arbitrary: p) (simp_all split: option.splits)

lemma play1_one_interval:
  assumes "one_interval (app p)" "play1 m p = Some p'"
  shows "one_interval (app p')"
proof (cases m)
  case (User g)
  with assms show ?thesis
    by (auto simp: one_interval_render split: if_splits prod.splits)
next
  case (Settle k r)
  with assms show ?thesis
    by (auto simp: one_interval_render split: if_splits option.splits prod.splits)
next
  case (Tick h)
  with assms show ?thesis by (auto simp: one_interval_fire split: if_splits)
next
  case Leave
  with assms show ?thesis by (auto simp: one_interval_unmount split: if_splits)
qed

lemma play_one_interval:
  "play ms p = Some p' \<Longrightarrow> one_interval (app p) \<Longrightarrow> one_interval (app p')"
proof (induction ms arbitrary: p)
  case Nil
  then show ?case by simp
next
  case (Cons m ms)
  from Cons.prems(1) obtain q where q: "play1 m p = Some q" and rest: "play ms q = Some p'"
    by (auto split: option.splits)
  from play1_one_interval [OF Cons.prems(2) q] Cons.IH [OF rest] show ?case by simp
qed

lemma opened_one_interval: "one_interval (app opened)"
  by (simp add: opened_def one_interval_mount)

text \<open>No step of a handler writes \<open>videoLoadingMessage\<close>.\<close>

lemma step_fields_message [simp]:
  "videoLoadingMessage (logo_dispatch s) = videoLoadingMessage s"
  "videoLoadingMessage (logo_settle img s) = videoLoadingMessage s"
  "videoLoadingMessage (video_key_settle key s) = videoLoadingMessage s"
  "videoLoadingMessage (video_settle vid s) = videoLoadingMessage s"
  "videoLoadingMessage (file_start s) = videoLoadingMessage s"
  "videoLoadingMessage (file_settle enc s) = videoLoadingMessage s"
  "videoLoadingMessage (check_settle key s) = videoLoadingMessage s"
  "videoLoadingMessage (select_settle sel s) = videoLoadingMessage s"
  by (simp_all add: logo_dispatch_def logo_settle_def video_key_settle_def video_settle_def
        video_dispatch_def file_start_def file_settle_def check_settle_def select_settle_def
        Let_def split: settled.splits)

lemma press_message:
  "press g s = (s', ts, cs) \<Longrightarrow> videoLoadingMessage s' = videoLoadingMessage s"
  by (cases g)
     (auto simp: setLogoPrompt_def setAnimationPrompt_def setAspectRatio_def
           split: if_splits option.splits)

lemma resume_message:
  "resume t r s = Some (s', ts, cs, rejected) \<Longrightarrow> videoLoadingMessage s' = videoLoadingMessage s"
  by (induction t r s rule: resume.induct) auto

lemma play1_message:
  assumes inv: "one_interval (app p)" and m: "play1 m p = Some p'"
  shows "videoLoadingMessage (ui p') =
          (if is_tick m then next_message (videoLoadingMessage (ui p))
           else videoLoadingMessage (ui p))"
proof (cases m)
  case (User g)
  with m show ?thesis
    by (auto simp: ui_def view_render press_message split: if_splits prod.splits)
next
  case (Settle k r)
  with m show ?thesis
    by (auto simp: ui_def view_render resume_message split: if_splits option.splits prod.splits)
next
  case (Tick h)
  with m have l: "h \<in> set (map fst (live (timers (app p))))"
    and p': "p' = p\<lparr> app := fire h (app p) \<rparr>"
    by (auto split: if_splits)
  from fire_live [OF inv l] p' Tick show ?thesis
    by (simp add: ui_def interval_callback_def)
next
  case Leave
  with m show ?thesis by (auto simp: ui_def unmount_def split: if_splits)
qed

lemma play_message:
  "play ms p = Some p' \<Longrightarrow> one_interval (app p) \<Longrightarrow>
   videoLoadingMessage (ui p') = (next_message ^^ ticks_in ms) (videoLoadingMessage (ui p))"
proof (induction ms arbitrary: p)
  case Nil
  then show ?case by (simp add: ticks_in_def)
next
  case (Cons m ms)
  from Cons.prems(1) obtain q where q: "play1 m p = Some q" and rest: "play ms q = Some p'"
    by (auto split: option.splits)
  from play1_one_interval [OF Cons.prems(2) q] have invq: "one_interval (app q)" .
  from Cons.IH [OF rest invq] play1_message [OF Cons.prems(2) q]
  show ?case by (simp add: ticks_in_def funpow_swap1)
qed

lemma next_message_iterated:
  "i < 6 \<Longrightarrow> (next_message ^^ n) (videoLoadingMessages ! i) = videoLoadingMessages ! ((i + n) mod 6)"
proof (induction n)
  case 0
  then show ?case by simp
next
  case (Suc n)
  have "(i + n) mod 6 < 6" by simp
  from next_message_cycle [OF this] Suc show ?case by (simp add: mod_Suc_eq)
qed

text \<open>No gesture and no firing stores a video; of the settlements only a fulfilled video call.\<close>

lemma press_video:
  "press g s = (s', ts, cs) \<Longrightarrow> generatedVideo s' = Some v \<Longrightarrow> generatedVideo s = Some v"
  by (cases g)
     (auto simp: setLogoPrompt_def setAnimationPrompt_def setAspectRatio_def logo_dispatch_def
           file_start_def split: if_splits option.splits)

lemma resume_video:
  "resume t r s = Some (s', ts, cs, rejected) \<Longrightarrow> generatedVideo s' = Some v \<Longrightarrow>
   generatedVideo s = Some v \<or> (\<exists>seen. t = VideoTask seen \<and> r = VideoSettles (Fulfilled v))"
  by (induction t r s rule: resume.induct)
     (auto simp: logo_settle_def video_key_settle_def video_settle_def video_dispatch_def
           file_settle_def check_settle_def select_settle_def Let_def
           split: settled.splits if_splits)

lemma fire_video: "generatedVideo (view (fire h c)) = generatedVideo (view c)"
  by (simp add: fire_def view_render interval_callback_def)

lemma play1_video:
  assumes "play1 m p = Some p'" "generatedVideo (ui p') = Some v"
  shows "generatedVideo (ui p) = Some v
         \<or> (\<exists>k seen. m = Settle k (VideoSettles (Fulfilled v))
               \<and> k < length (tasks p) \<and> tasks p ! k = VideoTask seen)"
proof (cases m)
  case (User g)
  with assms show ?thesis
    by (auto simp: ui_def view_render dest: press_video split: if_splits prod.splits)
next
  case (Settle k r)
  with assms obtain s' ts cs rejected where k: "k < length (tasks p)"
    and r: "resume (tasks p ! k) r (ui p) = Some (s', ts, cs, rejected)"
    and p': "ui p' = (if mounted (app p) then s' else ui p)"
    by (auto simp: ui_def view_render split: if_splits option.splits prod.splits)
  show ?thesis
  proof (cases "mounted (app p)")
    case True
    with p' assms(2) have "generatedVideo s' = Some v" by simp
    from resume_video [OF r this] k Settle show ?thesis by auto
  next
    case False
    with p' assms(2) show ?thesis by simp
  qed
next
  case (Tick h)
  with assms show ?thesis by (auto simp: ui_def fire_video split: if_splits)
next
  case Leave
  with assms show ?thesis by (auto simp: ui_def unmount_def split: if_splits)
qed

lemma play_snoc:
  "play (ms @ [m]) p = (case play ms p of None \<Rightarrow> None | Some q \<Rightarrow> play1 m q)"
  by (simp add: play_append split: option.splits)

lemma play_video:
  "play ms p0 = Some p \<Longrightarrow> generatedVideo (ui p0) = None \<Longrightarrow> generatedVideo (ui p) = Some v \<Longrightarrow>
   \<exists>ms1 k ms2 q seen.
      ms = ms1 @ Settle k (VideoSettles (Fulfilled v)) # ms2
    \<and> play ms1 p0 = Some q \<and> k < length (tasks q) \<and> tasks q ! k = VideoTask seen"
proof (induction ms arbitrary: p rule: rev_induct)
  case Nil
  then show ?case by simp
next
  case (snoc m ms)
  from snoc.prems(1) obtain q' where q': "play ms p0 = Some q'" and m: "play1 m q' = Some p"
    by (auto simp: play_snoc split: option.splits)
  from play1_video [OF m snoc.prems(3)] show ?case
  proof
    assume "generatedVideo (ui q') = Some v"
    from snoc.IH [OF q' snoc.prems(2) this] obtain ms1 k ms2 q seen where
      "ms = ms1 @ Settle k (VideoSettles (Fulfilled v)) # ms2"
      "play ms1 p0 = Some q" "k < length (tasks q)" "tasks q ! k = VideoTask seen"
      by blast
    then have "ms @ [m] = ms1 @ Settle k (VideoSettles (Fulfilled v)) # (ms2 @ [m])
      \<and> play ms1 p0 = Some q \<and> k < length (tasks q) \<and> tasks q ! k = VideoTask seen"
      by simp
    then show ?thesis by blast
  next
    assume "\<exists>k seen. m = Settle k (VideoSettles (Fulfilled v))
               \<and> k < length (tasks q') \<and> tasks q' ! k = VideoTask seen"
    then obtain k seen where "m = Settle k (VideoSettles (Fulfilled v))"
      "k < length (tasks q')" "tasks q' ! k = VideoTask seen" by blast
    with q' have "ms @ [m] = ms @ Settle k (VideoSettles (Fulfilled v)) # []
      \<and> play ms p0 = Some q' \<and> k < length (tasks q') \<and> tasks q' ! k = VideoTask seen"
      by simp
    then show ?thesis by blast
  qed
qed

lemma press_carries:
  "press g s = (s', ts, cs) \<Longrightarrow> carries seen ts \<Longrightarrow> g = PressGenerateVideo \<and> seen = s"
  by (cases g) (auto simp: carries_def split: if_splits option.splits)

lemma resume_carries:
  "resume t r s = Some (s', ts, cs, rejected) \<Longrightarrow> carries seen ts \<Longrightarrow> t = VideoKeyTask seen"
  by (induction t r s rule: resume.induct) (auto simp: carries_def split: if_splits)

lemma carries_append: "carries seen (ts @ us) = (carries seen ts \<or> carries seen us)"
  by (auto simp: carries_def)

lemma carries_without:
  "carries seen (take k ts @ drop (Suc k) ts) \<Longrightarrow> carries seen ts"
  by (auto simp: carries_def dest: in_set_takeD in_set_dropD)

lemma play1_carries:
  assumes "play1 m p = Some p'" "carries seen (tasks p')"
  shows "carries seen (tasks p) \<or> (m = User PressGenerateVideo \<and> seen = ui p)"
proof (cases m)
  case (User g)
  with assms show ?thesis
    by (auto simp: carries_append dest: press_carries split: if_splits prod.splits)
next
  case (Settle k r)
  with assms obtain s' ts cs rejected where k: "k < length (tasks p)"
    and r: "resume (tasks p ! k) r (ui p) = Some (s', ts, cs, rejected)"
    and t: "tasks p' = take k (tasks p) @ drop (Suc k) (tasks p) @ ts"
    by (auto split: if_splits option.splits prod.splits)
  from assms(2) t have "carries seen (take k (tasks p) @ drop (Suc k) (tasks p)) \<or> carries seen ts"
    by (simp add: carries_append)
  then show ?thesis
  proof
    assume "carries seen (take k (tasks p) @ drop (Suc k) (tasks p))"
    then show ?thesis by (auto dest: carries_without)
  next
    assume "carries seen ts"
    from resume_carries [OF r this] k have "VideoKeyTask seen \<in> set (tasks p)"
      by (metis nth_mem)
    then show ?thesis by (simp add: carries_def)
  qed
next
  case (Tick h)
  with assms show ?thesis by (auto split: if_splits)
next
  case Leave
  with assms show ?thesis by (auto split: if_splits)
qed

lemma play_carries:
  "play ms p0 = Some p \<Longrightarrow> carries seen (tasks p) \<Longrightarrow> \<not> carries seen (tasks p0) \<Longrightarrow>
   \<exists>ms0 rest q0. ms = ms0 @ User PressGenerateVideo # rest \<and> play ms0 p0 = Some q0 \<and> ui q0 = seen"
proof (induction ms arbitrary: p rule: rev_induct)
  case Nil
  then show ?case by simp
next
  case (snoc m ms)
  from snoc.prems(1) obtain q' where q': "play ms p0 = Some q'" and m: "play1 m q' = Some p"
    by (auto simp: play_snoc split: option.splits)
  from play1_carries [OF m snoc.prems(2)] show ?case
  proof
    assume "carries seen (tasks q')"
    from snoc.IH [OF q' this snoc.prems(3)] obtain ms0 rest q0 where
      "ms = ms0 @ User PressGenerateVideo # rest" "play ms0 p0 = Some q0" "ui q0 = seen"
      by blast
    then have "ms @ [m] = ms0 @ User PressGenerateVideo # (rest @ [m])
      \<and> play ms0 p0 = Some q0 \<and> ui q0 = seen" by simp
    then show ?thesis by blast
  next
    assume "m = User PressGenerateVideo \<and> seen = ui q'"
    with q' have "ms @ [m] = ms @ User PressGenerateVideo # [] \<and> play ms p0 = Some q' \<and> ui q' = seen"
      by simp
    then show ?thesis by blast
  qed
qed

lemma resume_video_call:
  "resume t r s = Some (s', ts, cs, rejected) \<Longrightarrow> VideoTask seen \<in> set ts \<Longrightarrow>
   video_call seen \<in> set cs"
  by (induction t r s rule: resume.induct) (auto split: if_splits)

lemma play1_video_call_made:
  assumes "play1 m p = Some p'" "VideoTask seen \<in> set (tasks p')"
    "VideoTask seen \<in> set (tasks p) \<longrightarrow> video_call seen \<in> set (made p)"
  shows "video_call seen \<in> set (made p')"
proof (cases m)
  case (User g)
  with assms show ?thesis
    by (cases g) (auto split: if_splits prod.splits option.splits)
next
  case (Settle k r)
  with assms(1) obtain s' ts cs rejected where k: "k < length (tasks p)"
    and r: "resume (tasks p ! k) r (ui p) = Some (s', ts, cs, rejected)"
    and t: "tasks p' = take k (tasks p) @ drop (Suc k) (tasks p) @ ts"
    and c: "made p' = made p @ cs"
    by (auto split: if_splits option.splits prod.splits)
  from assms(2) t have "VideoTask seen \<in> set (tasks p) \<or> VideoTask seen \<in> set ts"
    by (auto dest: in_set_takeD in_set_dropD)
  then show ?thesis
  proof
    assume "VideoTask seen \<in> set (tasks p)"
    with assms(3) c show ?thesis by simp
  next
    assume new: "VideoTask seen \<in> set ts"
    from resume_video_call [OF r new] c show ?thesis by simp
  qed
next
  case (Tick h)
  with assms show ?thesis by (auto split: if_splits)
next
  case Leave
  with assms show ?thesis by (auto split: if_splits)
qed

lemma play_video_call_made:
  "play ms p0 = Some p \<Longrightarrow> VideoTask seen \<in> set (tasks p) \<Longrightarrow>
   VideoTask seen \<notin> set (tasks p0) \<Longrightarrow> video_call seen \<in> set (made p)"
proof (induction ms arbitrary: p rule: rev_induct)
  case Nil
  then show ?case by simp
next
  case (snoc m ms)
  from snoc.prems(1) obtain q' where q': "play ms p0 = Some q'" and m: "play1 m q' = Some p"
    by (auto simp: play_snoc split: option.splits)
  have "VideoTask seen \<in> set (tasks q') \<longrightarrow> video_call seen \<in> set (made q')"
    using snoc.IH [OF q' _ snoc.prems(3)] by blast
  from play1_video_call_made [OF m snoc.prems(2) this] show ?case .
qed

section \<open>Facts about runs of the page\<close>

lemmas step_defs =
  logo_dispatch_def logo_settle_def video_key_settle_def video_settle_def video_dispatch_def
  video_finally_def file_start_def file_settle_def check_settle_def select_settle_def
  setLogoPrompt_def setAnimationPrompt_def setAspectRatio_def video_call_def base64Data_def
  index_def

lemmas app_defs =
  ui_def render_def fire_def unmount_def mount_def effect_def cleanup_def setInterval_def
  clearInterval_def no_timers_def interval_callback_def

lemma opened_fields [simp]:
  "ui opened = initial_state" "mounted (app opened)" "tasks opened = [CheckTask]"
  by (simp_all add: opened_def app_defs initial_state_def)

lemma ready_page_reached:
  "play [Settle 0 (KeySettles (Fulfilled True)),
         User (TypeLogoPrompt ''red circle''),
         User PressGenerateLogo,
         Settle 0 (ImageSettles (Fulfilled ''UA=='')),
         User (TypeAnimationPrompt ''spin''),
         User (PickAspectRatio Portrait_9_16)] opened = Some ready_page"
  by (simp add: opened_def ready_page_def initial_state_def logo_ready_def videoLoadingMessages_def
        step_defs app_defs Let_def)

lemma animating_page_reached:
  "play [User PressGenerateVideo, Settle 0 (KeySettles (Fulfilled True))] ready_page
     = Some animating_page"
  by (simp add: ready_page_def animating_page_def logo_ready_def step_defs app_defs Let_def)

lemma ui_ready [simp]: "ui ready_page = logo_ready"
  by (simp add: ready_page_def ui_def)

lemma ui_animating [simp]: "ui animating_page = logo_ready\<lparr> isGeneratingVideo := True \<rparr>"
  by (simp add: animating_page_def ui_def)

lemma mounted_examples [simp]: "mounted (app ready_page)" "mounted (app animating_page)"
  by (simp_all add: ready_page_def animating_page_def)

text \<open>What a gesture and a settlement do to the page that is mounted.\<close>

lemma play1_User:
  "mounted (app p) \<Longrightarrow> offered g (ui p) \<Longrightarrow> press g (ui p) = (s', ts, cs) \<Longrightarrow>
   \<exists>p'. play1 (User g) p = Some p' \<and> ui p' = s' \<and> tasks p' = tasks p @ ts
        \<and> made p' = made p @ cs \<and> mounted (app p')"
  by (simp add: ui_def view_render)

lemma play1_Settle:
  "mounted (app p) \<Longrightarrow> k < length (tasks p) \<Longrightarrow>
   resume (tasks p ! k) r (ui p) = Some (s', ts, cs, rejected) \<Longrightarrow>
   \<exists>p'. play1 (Settle k r) p = Some p' \<and> ui p' = s'
        \<and> tasks p' = take k (tasks p) @ drop (Suc k) (tasks p) @ ts
        \<and> made p' = made p @ cs \<and> mounted (app p')
        \<and> rejections p' = rejections p + (if rejected then 1 else 0)"
  by (simp add: ui_def view_render)

lemma message_or_quota [simp]: "message_or (Some ''quota'') fallback = ''quota''"
  by (simp add: message_or_def)

lemma quota_has_no_signature [simp]:
  "\<not> includes_js ''quota'' ''Requested entity was not found''"
  by simp

text \<open>The example pages follow one another.\<close>

lemma relogo_page_reached: "play1 (User PressGenerateLogo) animating_page = Some relogo_page"
  by (simp add: relogo_page_def animating_page_def logo_ready_def step_defs app_defs Let_def)

lemma uploading_page_reached:
  "play1 (User (ChooseFile (Some ''new.png''))) animating_page = Some uploading_page"
  by (simp add: uploading_page_def animating_page_def logo_ready_def step_defs app_defs Let_def)

lemma shown_page_reached:
  "play [Tick 1, Tick 1, Settle 0 (VideoSettles (Fulfilled ''blob:V''))] animating_page
     = Some shown_page"
  by (simp add: shown_page_def animating_page_def video_ready_def logo_ready_def
        videoLoadingMessages_def step_defs app_defs Let_def)

lemma again_page_reached:
  "play [User PressGenerateVideo, Settle 0 (KeySettles (Fulfilled True))] shown_page
     = Some again_page"
  by (simp add: shown_page_def again_page_def animating_page_def video_ready_def logo_ready_def
        step_defs app_defs Let_def)

lemma asking_page_reached: "play1 (User PressGenerateVideo) ready_page = Some asking_page"
  by (simp add: asking_page_def ready_page_def logo_ready_def step_defs app_defs Let_def)

lemma asking_page_fields [simp]:
  "ui asking_page = logo_ready" "mounted (app asking_page)"
  "tasks asking_page = [VideoKeyTask logo_ready]"
  "made asking_page = [HasSelectedApiKey, GenerateLogoImage ''red circle'', HasSelectedApiKey]"
  by (simp_all add: asking_page_def ready_page_def ui_def)

lemma ui_examples [simp]:
  "ui relogo_page = logo_dispatch (logo_ready\<lparr> isGeneratingVideo := True \<rparr>)"
  "ui uploading_page = logo_ready\<lparr> isGeneratingVideo := True \<rparr>"
  "ui shown_page = video_ready"
  "ui again_page = video_ready\<lparr> isGeneratingVideo := True, generatedVideo := None \<rparr>"
  by (simp_all add: relogo_page_def uploading_page_def shown_page_def again_page_def
        animating_page_def ui_def)

lemma mounted_more_examples [simp]:
  "mounted (app relogo_page)" "mounted (app uploading_page)"
  "mounted (app shown_page)" "mounted (app again_page)"
  by (simp_all add: relogo_page_def uploading_page_def shown_page_def again_page_def
        animating_page_def)

lemma tasks_examples [simp]:
  "tasks ready_page = []"
  "tasks animating_page = [VideoTask logo_ready]"
  "tasks relogo_page = [VideoTask logo_ready, ImageTask]"
  "tasks uploading_page = [VideoTask logo_ready, FileTask]"
  "tasks shown_page = []"
  "tasks again_page = [VideoTask video_ready]"
  by (simp_all add: ready_page_def relogo_page_def uploading_page_def shown_page_def
        again_page_def animating_page_def)

text \<open>
  A handler run on its own is the run of the page in which its call settles before
  anything else happens.
\<close>

lemma logo_run_on_page:
  assumes "mounted (app p)" "offered PressGenerateLogo (ui p)" "\<not> blank (logoPrompt (ui p))"
  shows "map_option ui (play [User PressGenerateLogo,
                              Settle (length (tasks p)) (ImageSettles img)] p)
           = Some (result (handleGenerateLogo img (ui p)))"
proof -
  from assms(3) have "press PressGenerateLogo (ui p)
    = (logo_dispatch (ui p), [ImageTask], [GenerateLogoImage (logoPrompt (ui p))])"
    by simp
  from play1_User [OF assms(1,2) this]
  obtain p' where p': "play1 (User PressGenerateLogo) p = Some p'"
    "ui p' = logo_dispatch (ui p)" "tasks p' = tasks p @ [ImageTask]" "mounted (app p')"
    by blast
  have "resume (tasks p' ! length (tasks p)) (ImageSettles img) (ui p')
    = Some (logo_settle img (ui p'), [], [],
            (case img of Fulfilled imageB64 \<Rightarrow> False | Rejected e \<Rightarrow> catch_throws e))"
    by (simp add: p'(3))
  from play1_Settle [OF p'(4) _ this] p'(3)
  obtain p'' where "play1 (Settle (length (tasks p)) (ImageSettles img)) p' = Some p''"
    "ui p'' = logo_settle img (ui p')"
    by auto
  with p' assms(3) show ?thesis by (simp del: play1.simps add: handleGenerateLogo_def)
qed

lemma file_run_on_page:
  assumes "mounted (app p)" "offered (ChooseFile (Some f)) (ui p)"
  shows "map_option ui (play [User (ChooseFile (Some f)),
                              Settle (length (tasks p)) (FileSettles enc)] p)
           = Some (result (handleFileChange (Some f) enc (ui p)))"
proof -
  have "press (ChooseFile (Some f)) (ui p) = (file_start (ui p), [FileTask], [FileToBase64 f])"
    by simp
  from play1_User [OF assms(1,2) this]
  obtain p' where p': "play1 (User (ChooseFile (Some f))) p = Some p'"
    "ui p' = file_start (ui p)" "tasks p' = tasks p @ [FileTask]" "mounted (app p')"
    by blast
  have "resume (tasks p' ! length (tasks p)) (FileSettles enc) (ui p')
    = Some (file_settle enc (ui p'), [], [], False)"
    by (simp add: p'(3))
  from play1_Settle [OF p'(4) _ this] p'(3)
  obtain p'' where "play1 (Settle (length (tasks p)) (FileSettles enc)) p' = Some p''"
    "ui p'' = file_settle enc (ui p')"
    by auto
  with p' show ?thesis by (simp del: play1.simps add: handleFileChange_def)
qed

section \<open>Facts about runs in which the user waits\<close>

lemmas write_defs =
  logo_dispatch_def logo_settle_def video_key_settle_def video_settle_def video_dispatch_def
  video_finally_def file_start_def file_settle_def check_settle_def select_settle_def
  setLogoPrompt_def setAnimationPrompt_def setAspectRatio_def

lemma one_task: "length ts \<le> 1 \<Longrightarrow> k < length ts \<Longrightarrow> k = 0 \<and> ts = [ts ! 0]"
  by (cases ts) auto

lemma paired_gesture:
  assumes "paired p src" "play1 (User g) p = Some p'" "tasks p = []"
  shows "paired p' src"
  using assms
  by (cases g)
     (auto simp: paired_def carries_def ui_def view_render write_defs split: if_splits option.splits)

lemma paired_settle:
  assumes "paired p src" "play1 (Settle k r) p = Some p'"
  shows "paired p' (source1 (Settle k r) p src)"
proof -
  from assms(2) have k: "k < length (tasks p)" by (auto split: if_splits)
  from assms(1) have "length (tasks p) \<le> 1" by (simp add: paired_def)
  from one_task [OF this k] obtain t where t: "tasks p = [t]" and k0: "k = 0" by metis
  show ?thesis
  proof (cases "mounted (app p)")
    case True
    with assms t k0 show ?thesis
      by (cases t; cases r)
         (auto simp: paired_def carries_def ui_def view_render write_defs Let_def
               split: if_splits option.splits settled.splits)
  next
    case False
    with assms t k0 show ?thesis
      by (cases t; cases r)
         (auto simp: paired_def carries_def ui_def view_render
               split: if_splits option.splits settled.splits)
  qed
qed

lemma fire_fields [simp]:
  "generatedVideo (view (fire h c)) = generatedVideo (view c)"
  "logoToAnimate (view (fire h c)) = logoToAnimate (view c)"
  by (simp_all add: fire_def view_render interval_callback_def)

lemma paired_step:
  assumes "paired p src" "play1 m p = Some p'" "is_gesture m \<Longrightarrow> tasks p = []"
  shows "paired p' (source1 m p src)"
proof (cases m)
  case (User g)
  with assms paired_gesture [of p src g p'] show ?thesis by simp
next
  case (Settle k r)
  with assms paired_settle [of p src k r p'] show ?thesis by simp
next
  case (Tick h)
  with assms show ?thesis by (auto simp: paired_def ui_def split: if_splits)
next
  case Leave
  with assms show ?thesis by (auto simp: paired_def ui_def unmount_def split: if_splits)
qed

lemma play_paired:
  "play ms p0 = Some p \<Longrightarrow> patient ms p0 \<Longrightarrow> paired p0 src \<Longrightarrow>
   paired p (video_source ms p0 src)"
proof (induction ms arbitrary: p0 src)
  case Nil
  then show ?case by simp
next
  case (Cons m ms)
  from Cons.prems(1) obtain q where q: "play1 m p0 = Some q" and rest: "play ms q = Some p"
    by (auto split: option.splits)
  from Cons.prems(2) q have gesture: "is_gesture m \<Longrightarrow> tasks p0 = []" and pat: "patient ms q"
    by (simp_all split: if_splits)
  from paired_step [OF Cons.prems(3) q gesture] have "paired q (source1 m p0 src)" .
  from Cons.IH [OF rest pat this] q show ?case by simp
qed

lemma paired_opened: "paired opened None"
  by (simp add: paired_def carries_def initial_state_def)

lemma source1_cases:
  "source1 m p src = Some (s1, v) \<Longrightarrow>
   src = Some (s1, v)
   \<or> (\<exists>k. m = Settle k (VideoSettles (Fulfilled v)) \<and> k < length (tasks p)
          \<and> tasks p ! k = VideoTask s1)"
  by (induction m p src rule: source1.induct) (auto split: if_splits task.splits)

lemma video_source_cases:
  "play ms p0 = Some p \<Longrightarrow> video_source ms p0 src = Some (s1, v) \<Longrightarrow>
   src = Some (s1, v)
   \<or> (\<exists>ms1 k ms2 q. ms = ms1 @ Settle k (VideoSettles (Fulfilled v)) # ms2
          \<and> play ms1 p0 = Some q \<and> k < length (tasks q) \<and> tasks q ! k = VideoTask s1)"
proof (induction ms arbitrary: p0 src)
  case Nil
  then show ?case by simp
next
  case (Cons m ms)
  from Cons.prems(1) obtain q where q: "play1 m p0 = Some q" and rest: "play ms q = Some p"
    by (auto split: option.splits)
  from Cons.prems(2) q have "video_source ms q (source1 m p0 src) = Some (s1, v)"
    by simp
  from Cons.IH [OF rest this] show ?case
  proof
    assume "source1 m p0 src = Some (s1, v)"
    from source1_cases [OF this] show ?thesis
    proof
      assume "src = Some (s1, v)"
      then show ?thesis by simp
    next
      assume "\<exists>k. m = Settle k (VideoSettles (Fulfilled v)) \<and> k < length (tasks p0)
          \<and> tasks p0 ! k = VideoTask s1"
      then obtain k where "m = Settle k (VideoSettles (Fulfilled v))" "k < length (tasks p0)"
        "tasks p0 ! k = VideoTask s1"
        by blast
      then have "m # ms = [] @ Settle k (VideoSettles (Fulfilled v)) # ms
          \<and> play [] p0 = Some p0 \<and> k < length (tasks p0) \<and> tasks p0 ! k = VideoTask s1"
        by simp
      then show ?thesis by blast
    qed
  next
    assume "\<exists>ms1 k ms2 q'. ms = ms1 @ Settle k (VideoSettles (Fulfilled v)) # ms2
          \<and> play ms1 q = Some q' \<and> k < length (tasks q') \<and> tasks q' ! k = VideoTask s1"
    then obtain ms1 k ms2 q' where "ms = ms1 @ Settle k (VideoSettles (Fulfilled v)) # ms2"
      "play ms1 q = Some q'" "k < length (tasks q')" "tasks q' ! k = VideoTask s1"
      by blast
    with q have "m # ms = (m # ms1) @ Settle k (VideoSettles (Fulfilled v)) # ms2
          \<and> play (m # ms1) p0 = Some q' \<and> k < length (tasks q') \<and> tasks q' ! k = VideoTask s1"
      by simp
    then show ?thesis by blast
  qed
qed

lemma video_of_a_patient_run:
  assumes "play ms opened = Some p" "patient ms opened" "generatedVideo (ui p) = Some v"
  shows "\<exists>ms1 k ms2 q seen. ms = ms1 @ Settle k (VideoSettles (Fulfilled v)) # ms2
          \<and> play ms1 opened = Some q \<and> k < length (tasks q) \<and> tasks q ! k = VideoTask seen
          \<and> logoToAnimate seen = logoToAnimate (ui p)"
proof -
  from play_paired [OF assms(1,2) paired_opened] assms(3)
  obtain s1 where src: "video_source ms opened None = Some (s1, v)"
    and same: "logoToAnimate s1 = logoToAnimate (ui p)"
    by (auto simp: paired_def)
  from video_source_cases [OF assms(1) src] same show ?thesis by auto
qed

section \<open>\<open>handleGenerateLogo\<close>: validation\<close>

text \<open>
  Claim C5, as stated, at a prompt of two spaces: the run is rejected, but the state does
  not stay as it was. The \<open>error\<close> hook, empty before, holds the validation message
  after (line 76).
\<close>

theorem requestLogo_blank_prompt_writes_error:
  "blank (logoPrompt (logo_ready\<lparr> logoPrompt := ''  '' \<rparr>))
   \<and> error (logo_ready\<lparr> logoPrompt := ''  '' \<rparr>) = None
   \<and> error (result (handleGenerateLogo (Fulfilled ''UA=='') (logo_ready\<lparr> logoPrompt := ''  '' \<rparr>)))
       = Some ''Please enter a description for your logo.''"
  by (simp add: handleGenerateLogo_def)

text \<open>
  Claim C5, amended. For every prompt that is empty after trimming, \<open>handleGenerateLogo\<close>
  reports the validation failure through \<open>error\<close> and changes no other part of the
  state: \<open>generatedLogo\<close> and \<open>isGeneratingLogo\<close> are as before, the only state rendered
  is the final one (the busy flag is never set), and no collaborator is called.
\<close>

theorem requestLogo_blank_prompt:
  "trim (logoPrompt s) = [] \<Longrightarrow>
     result (handleGenerateLogo img s)
       = s\<lparr> error := Some ''Please enter a description for your logo.'' \<rparr>
   \<and> generatedLogo (result (handleGenerateLogo img s)) = generatedLogo s
   \<and> isGeneratingLogo (result (handleGenerateLogo img s)) = isGeneratingLogo s
   \<and> rendered (handleGenerateLogo img s) = [result (handleGenerateLogo img s)]
   \<and> calls (handleGenerateLogo img s) = []"
  by (simp add: handleGenerateLogo_def blank_def calls_def rendered_def)

theorem requestLogo_blank_prompt_witness:
  "trim (logoPrompt (logo_ready\<lparr> logoPrompt := [CHR '' '', CHR 0x09] \<rparr>)) = []
   \<and> result (handleGenerateLogo (Fulfilled ''UA=='') (logo_ready\<lparr> logoPrompt := [CHR '' '', CHR 0x09] \<rparr>))
       = logo_ready\<lparr> logoPrompt := [CHR '' '', CHR 0x09],
                      error := Some ''Please enter a description for your logo.'' \<rparr>
   \<and> calls (handleGenerateLogo (Fulfilled ''UA=='') (logo_ready\<lparr> logoPrompt := [CHR '' '', CHR 0x09] \<rparr>)) = []"
proof -
  have h: "trim (logoPrompt (logo_ready\<lparr> logoPrompt := [CHR '' '', CHR 0x09] \<rparr>)) = []"
    by (simp add: trim_def is_js_whitespace_def)
  from h requestLogo_blank_prompt [OF h, of "Fulfilled ''UA==''"] show ?thesis
    by simp
qed

section \<open>The busy flags\<close>

text \<open>
  Claim C2. Whatever the image call, the key query and the video call do, the busy flag of
  a run of \<open>handleGenerateLogo\<close>, and of \<open>handleGenerateVideo\<close>, is false when the run
  ends. A run that passes validation clears its flag in \<open>finally\<close> (lines 94 and 135). A
  run that fails validation returns before the \<open>try\<close> and leaves the flag as it found
  it, which is false: the button that starts the run is disabled while the flag is set
  (lines 215 and 282). So both flags are false after every action of every session of a
  mounted page. In whatever state a run resumes after its \<open>await\<close>, its last update
  sets its flag to false.
\<close>

theorem busy_flags_released:
  "(\<not> blank (logoPrompt s) \<or> \<not> isGeneratingLogo s
      \<longrightarrow> \<not> isGeneratingLogo (result (handleGenerateLogo img s)))
   \<and> ((\<not> falsy (logoToAnimate s) \<and> \<not> blank (animationPrompt s)) \<or> \<not> isGeneratingVideo s
      \<longrightarrow> \<not> isGeneratingVideo (result (handleGenerateVideo key vid ticks s)))
   \<and> (session es (mounted_state answer) = Some s'
      \<longrightarrow> \<not> isGeneratingLogo s' \<and> \<not> isGeneratingVideo s')
   \<and> \<not> isGeneratingLogo (logo_settle img resumed)
   \<and> \<not> isGeneratingVideo (video_finally resumed)"
proof (intro conjI impI)
  assume "\<not> blank (logoPrompt s) \<or> \<not> isGeneratingLogo s"
  then show "\<not> isGeneratingLogo (result (handleGenerateLogo img s))"
    by (auto simp: handleGenerateLogo_def)
next
  assume "(\<not> falsy (logoToAnimate s) \<and> \<not> blank (animationPrompt s)) \<or> \<not> isGeneratingVideo s"
  then show "\<not> isGeneratingVideo (result (handleGenerateVideo key vid ticks s))"
    by (auto simp: handleGenerateVideo_def video_key_settle_def Let_def split: settled.splits)
next
  assume run: "session es (mounted_state answer) = Some s'"
  from session_keeps_flags_clear [OF run] mounted_state_flags [of answer]
  show "\<not> isGeneratingLogo s'" and "\<not> isGeneratingVideo s'" by simp_all
next
  show "\<not> isGeneratingLogo (logo_settle img resumed)"
    by (simp add: logo_settle_def)
next
  show "\<not> isGeneratingVideo (video_finally resumed)"
    by (simp add: video_finally_def)
qed

theorem busy_flags_released_witness:
  "\<not> isGeneratingLogo logo_ready \<and> \<not> isGeneratingVideo logo_ready
   \<and> isGeneratingLogo (snd (hd (pending (handleGenerateLogo (Rejected (Thrown None)) logo_ready))))
   \<and> \<not> isGeneratingLogo (result (handleGenerateLogo (Rejected (Thrown None)) logo_ready))
   \<and> isGeneratingVideo (snd (last (pending
        (handleGenerateVideo (Fulfilled True) (Rejected (Thrown (Some ''quota''))) 3 logo_ready))))
   \<and> \<not> isGeneratingVideo (result
        (handleGenerateVideo (Fulfilled True) (Rejected (Thrown (Some ''quota''))) 3 logo_ready))
   \<and> session [LogoPromptChange ''red circle'', GenerateLogoClick (Fulfilled ''UA==''),
               AnimationPromptChange ''spin'', AspectRatioClick Portrait_9_16,
               GenerateVideoClick (Fulfilled True) (Fulfilled ''blob:V'') 2]
        (mounted_state (Fulfilled True)) = Some video_ready
   \<and> \<not> isGeneratingLogo video_ready \<and> \<not> isGeneratingVideo video_ready"
proof -
  let ?es = "[LogoPromptChange ''red circle'', GenerateLogoClick (Fulfilled ''UA==''),
              AnimationPromptChange ''spin'', AspectRatioClick Portrait_9_16,
              GenerateVideoClick (Fulfilled True) (Fulfilled ''blob:V'') 2]"
  have h1: "\<not> blank (logoPrompt logo_ready) \<or> \<not> isGeneratingLogo logo_ready" by simp
  have h2: "(\<not> falsy (logoToAnimate logo_ready) \<and> \<not> blank (animationPrompt logo_ready))
            \<or> \<not> isGeneratingVideo logo_ready" by simp
  have h3: "session ?es (mounted_state (Fulfilled True)) = Some video_ready"
    by (rule video_ready_reached)
  note t = busy_flags_released [where s = logo_ready and img = "Rejected (Thrown None)"
             and key = "Fulfilled True" and vid = "Rejected (Thrown (Some ''quota''))" and ticks = 3
             and es = ?es and answer = "Fulfilled True" and s' = video_ready]
  from t h1 have c1: "\<not> isGeneratingLogo (result (handleGenerateLogo (Rejected (Thrown None)) logo_ready))"
    by blast
  from t h2 have c2: "\<not> isGeneratingVideo (result
        (handleGenerateVideo (Fulfilled True) (Rejected (Thrown (Some ''quota''))) 3 logo_ready))"
    by blast
  from t h3 have c3: "\<not> isGeneratingLogo video_ready \<and> \<not> isGeneratingVideo video_ready"
    by blast
  have p1: "isGeneratingLogo (snd (hd (pending (handleGenerateLogo (Rejected (Thrown None)) logo_ready))))"
    by (simp add: handleGenerateLogo_def logo_dispatch_def)
  have p2: "isGeneratingVideo (snd (last (pending
        (handleGenerateVideo (Fulfilled True) (Rejected (Thrown (Some ''quota''))) 3 logo_ready))))"
    by (simp add: video_run_dispatched video_dispatch_def)
  from c1 c2 c3 p1 p2 h3 show ?thesis by simp
qed

section \<open>\<open>handleGenerateVideo\<close>: the key check before dispatch\<close>

text \<open>
  Claim C3. A run of \<open>handleGenerateVideo\<close> calls \<open>generateLogoVideo\<close> only if the
  query \<open>hasSelectedApiKey()\<close> it makes just before answered \<open>true\<close>. When the query
  answers \<open>false\<close>, the run calls nothing else, stores the message that asks for a key in
  \<open>error\<close>, and no state it renders has the busy flag set unless the flag was set at
  entry; what \<open>hasApiKey\<close> was at entry plays no part.
\<close>

theorem no_video_call_without_key:
  "(GenerateLogoVideo p b a \<in> set (calls (handleGenerateVideo key vid ticks s))
      \<longrightarrow> key = Fulfilled True)
   \<and> (\<not> falsy (logoToAnimate s) \<and> \<not> blank (animationPrompt s)
      \<longrightarrow> calls (handleGenerateVideo (Fulfilled False) vid ticks s) = [HasSelectedApiKey]
        \<and> error (result (handleGenerateVideo (Fulfilled False) vid ticks s))
            = Some ''Please select an API key to generate videos.''
        \<and> (\<forall>st \<in> set (rendered (handleGenerateVideo (Fulfilled False) vid ticks s)).
              isGeneratingVideo st \<longrightarrow> isGeneratingVideo s))"
  by (auto simp: handleGenerateVideo_def video_key_settle_def calls_def rendered_def Let_def
           video_finally_def split: settled.splits)

theorem no_video_call_without_key_witness:
  "hasApiKey logo_ready
   \<and> \<not> falsy (logoToAnimate logo_ready) \<and> \<not> blank (animationPrompt logo_ready)
   \<and> calls (handleGenerateVideo (Fulfilled False) (Fulfilled ''V'') 0 logo_ready)
        = [HasSelectedApiKey]
   \<and> error (result (handleGenerateVideo (Fulfilled False) (Fulfilled ''V'') 0 logo_ready))
        = Some ''Please select an API key to generate videos.''
   \<and> map isGeneratingVideo (rendered (handleGenerateVideo (Fulfilled False) (Fulfilled ''V'') 0 logo_ready))
        = [False, False]
   \<and> GenerateLogoVideo ''spin'' (Some ''UA=='') Portrait_9_16
        \<in> set (calls (handleGenerateVideo (Fulfilled True) (Fulfilled ''V'') 0 logo_ready))"
proof -
  have h: "\<not> falsy (logoToAnimate logo_ready) \<and> \<not> blank (animationPrompt logo_ready)"
    by simp
  have c: "GenerateLogoVideo ''spin'' (Some ''UA=='') Portrait_9_16
        \<in> set (calls (handleGenerateVideo (Fulfilled True) (Fulfilled ''V'') 0 logo_ready))"
    by (simp add: video_run_dispatched calls_def base64Data_def index_def)
  have r: "map isGeneratingVideo (rendered (handleGenerateVideo (Fulfilled False) (Fulfilled ''V'') 0 logo_ready))
        = [False, False]"
    by (simp add: video_run_no_key rendered_def)
  from no_video_call_without_key [of "''spin''" "Some ''UA==''" Portrait_9_16 "Fulfilled True"
         "Fulfilled ''V''" 0 logo_ready] h c r
  show ?thesis by simp
qed

text \<open>
  Claim C9. When the query before dispatch answers that no key is selected, the run stores
  that answer in \<open>hasApiKey\<close>, which is false afterwards whatever it was before, besides
  storing the error message.
\<close>

theorem key_recheck_updates_hasApiKey:
  "\<not> falsy (logoToAnimate s) \<Longrightarrow> \<not> blank (animationPrompt s) \<Longrightarrow>
     hasApiKey (result (handleGenerateVideo (Fulfilled False) vid ticks s)) = False
   \<and> error (result (handleGenerateVideo (Fulfilled False) vid ticks s))
        = Some ''Please select an API key to generate videos.''"
  by (simp add: video_run_no_key)

theorem key_recheck_updates_hasApiKey_witness:
  "\<not> falsy (logoToAnimate logo_ready) \<and> \<not> blank (animationPrompt logo_ready)
   \<and> hasApiKey logo_ready
   \<and> \<not> hasApiKey (result (handleGenerateVideo (Fulfilled False) (Fulfilled ''V'') 0 logo_ready))"
proof -
  have h1: "\<not> falsy (logoToAnimate logo_ready)" and h2: "\<not> blank (animationPrompt logo_ready)"
    by simp_all
  from key_recheck_updates_hasApiKey [OF h1 h2, of "Fulfilled ''V''" 0] h1 h2
  show ?thesis by simp
qed

section \<open>\<open>handleGenerateLogo\<close>: success\<close>

text \<open>
  Claim C6, as stated, in two runs of the page in which a logo is requested while a video
  call is pending (the logo button is disabled only while a logo is generated, line 215)
  and the video call settles before the image call. In the first the video call fails:
  after the successful logo run \<open>error\<close> holds the message of that failure. In the second
  it is fulfilled: after the successful logo run \<open>generatedVideo\<close> holds the video.
\<close>

theorem logo_success_with_error_and_video:
  "play [User PressGenerateVideo, Settle 0 (KeySettles (Fulfilled True))] ready_page
     = Some animating_page
   \<and> map_option (generatedLogo \<circ> ui)
        (play [User PressGenerateLogo,
               Settle 0 (VideoSettles (Rejected (Thrown (Some ''quota'')))),
               Settle 0 (ImageSettles (Fulfilled ''UQ==''))] animating_page)
       = Some (Some ''data:image/jpeg;base64,UQ=='')
   \<and> map_option (error \<circ> ui)
        (play [User PressGenerateLogo,
               Settle 0 (VideoSettles (Rejected (Thrown (Some ''quota'')))),
               Settle 0 (ImageSettles (Fulfilled ''UQ==''))] animating_page)
       = Some (Some ''quota'')
   \<and> map_option (generatedLogo \<circ> ui)
        (play [User PressGenerateLogo,
               Settle 0 (VideoSettles (Fulfilled ''blob:V'')),
               Settle 0 (ImageSettles (Fulfilled ''UQ==''))] animating_page)
       = Some (Some ''data:image/jpeg;base64,UQ=='')
   \<and> map_option (generatedVideo \<circ> ui)
        (play [User PressGenerateLogo,
               Settle 0 (VideoSettles (Fulfilled ''blob:V'')),
               Settle 0 (ImageSettles (Fulfilled ''UQ==''))] animating_page)
       = Some (Some ''blob:V'')"
proof (intro conjI)
  show "play [User PressGenerateVideo, Settle 0 (KeySettles (Fulfilled True))] ready_page
     = Some animating_page"
    by (rule animating_page_reached)
qed (simp_all add: animating_page_def logo_ready_def step_defs app_defs Let_def)

text \<open>
  Claim C6, amended. A run of \<open>handleGenerateLogo\<close> that passes validation clears
  \<open>generatedVideo\<close> and \<open>error\<close> when it dispatches the image call, and sets the busy
  flag. When the image call is fulfilled, whatever happened on the page meanwhile, the
  run stores the returned image (as a JPEG data URL) as both \<open>generatedLogo\<close> and
  \<open>logoToAnimate\<close> and clears the busy flag; it writes neither \<open>generatedVideo\<close> nor
  \<open>error\<close> again. When the image call settles before anything else happens on the page,
  \<open>generatedVideo\<close> and \<open>error\<close> are therefore empty after the run.
\<close>

theorem requestLogo_success:
  "(mounted (app p) \<and> offered PressGenerateLogo (ui p) \<and> \<not> blank (logoPrompt (ui p)) \<longrightarrow>
      (\<exists>p'. play1 (User PressGenerateLogo) p = Some p'
         \<and> generatedVideo (ui p') = None \<and> error (ui p') = None \<and> isGeneratingLogo (ui p')
         \<and> tasks p' = tasks p @ [ImageTask]
         \<and> made p' = made p @ [GenerateLogoImage (logoPrompt (ui p))]))
   \<and> (mounted (app q) \<and> k < length (tasks q) \<and> tasks q ! k = ImageTask \<longrightarrow>
      (\<exists>q'. play1 (Settle k (ImageSettles (Fulfilled imageB64))) q = Some q'
         \<and> generatedLogo (ui q') = Some (''data:image/jpeg;base64,'' @ imageB64)
         \<and> logoToAnimate (ui q') = generatedLogo (ui q')
         \<and> \<not> isGeneratingLogo (ui q')
         \<and> generatedVideo (ui q') = generatedVideo (ui q)
         \<and> error (ui q') = error (ui q)))
   \<and> (mounted (app p) \<and> offered PressGenerateLogo (ui p) \<and> \<not> blank (logoPrompt (ui p)) \<longrightarrow>
      (\<exists>s'. map_option ui (play [User PressGenerateLogo,
                                   Settle (length (tasks p)) (ImageSettles (Fulfilled imageB64))] p)
              = Some s'
         \<and> generatedLogo s' = Some (''data:image/jpeg;base64,'' @ imageB64)
         \<and> logoToAnimate s' = generatedLogo s'
         \<and> generatedVideo s' = None
         \<and> error s' = None
         \<and> \<not> isGeneratingLogo s'))"
proof (intro conjI impI)
  assume a: "mounted (app p) \<and> offered PressGenerateLogo (ui p) \<and> \<not> blank (logoPrompt (ui p))"
  then have "press PressGenerateLogo (ui p)
    = (logo_dispatch (ui p), [ImageTask], [GenerateLogoImage (logoPrompt (ui p))])"
    by simp
  from play1_User [OF _ _ this] a
  obtain p' where "play1 (User PressGenerateLogo) p = Some p'" "ui p' = logo_dispatch (ui p)"
    "tasks p' = tasks p @ [ImageTask]" "made p' = made p @ [GenerateLogoImage (logoPrompt (ui p))]"
    by blast
  then show "\<exists>p'. play1 (User PressGenerateLogo) p = Some p'
         \<and> generatedVideo (ui p') = None \<and> error (ui p') = None \<and> isGeneratingLogo (ui p')
         \<and> tasks p' = tasks p @ [ImageTask]
         \<and> made p' = made p @ [GenerateLogoImage (logoPrompt (ui p))]"
    by (simp add: logo_dispatch_def)
  from a have "map_option ui (play [User PressGenerateLogo,
        Settle (length (tasks p)) (ImageSettles (Fulfilled imageB64))] p)
      = Some (result (handleGenerateLogo (Fulfilled imageB64) (ui p)))"
    by (intro logo_run_on_page) simp_all
  moreover from a have "result (handleGenerateLogo (Fulfilled imageB64) (ui p))
      = logo_settle (Fulfilled imageB64) (logo_dispatch (ui p))"
    by (simp add: handleGenerateLogo_def)
  ultimately have run: "map_option ui (play [User PressGenerateLogo,
        Settle (length (tasks p)) (ImageSettles (Fulfilled imageB64))] p)
      = Some (logo_settle (Fulfilled imageB64) (logo_dispatch (ui p)))"
    by (simp only:)
  show "\<exists>s'. map_option ui (play [User PressGenerateLogo,
                                   Settle (length (tasks p)) (ImageSettles (Fulfilled imageB64))] p)
              = Some s'
         \<and> generatedLogo s' = Some (''data:image/jpeg;base64,'' @ imageB64)
         \<and> logoToAnimate s' = generatedLogo s'
         \<and> generatedVideo s' = None
         \<and> error s' = None
         \<and> \<not> isGeneratingLogo s'"
  proof (intro exI [of _ "logo_settle (Fulfilled imageB64) (logo_dispatch (ui p))"] conjI)
    show "map_option ui (play [User PressGenerateLogo,
        Settle (length (tasks p)) (ImageSettles (Fulfilled imageB64))] p)
      = Some (logo_settle (Fulfilled imageB64) (logo_dispatch (ui p)))"
      by (rule run)
  qed (simp_all add: logo_settle_def logo_dispatch_def Let_def)
next
  assume a: "mounted (app q) \<and> k < length (tasks q) \<and> tasks q ! k = ImageTask"
  then have "resume (tasks q ! k) (ImageSettles (Fulfilled imageB64)) (ui q)
    = Some (logo_settle (Fulfilled imageB64) (ui q), [], [], False)"
    by simp
  from play1_Settle [OF _ _ this] a
  obtain q' where "play1 (Settle k (ImageSettles (Fulfilled imageB64))) q = Some q'"
    "ui q' = logo_settle (Fulfilled imageB64) (ui q)"
    by blast
  then show "\<exists>q'. play1 (Settle k (ImageSettles (Fulfilled imageB64))) q = Some q'
         \<and> generatedLogo (ui q') = Some (''data:image/jpeg;base64,'' @ imageB64)
         \<and> logoToAnimate (ui q') = generatedLogo (ui q')
         \<and> \<not> isGeneratingLogo (ui q')
         \<and> generatedVideo (ui q') = generatedVideo (ui q)
         \<and> error (ui q') = error (ui q)"
    by (simp add: logo_settle_def Let_def)
qed

theorem requestLogo_success_witness:
  "mounted (app animating_page) \<and> offered PressGenerateLogo (ui animating_page)
   \<and> \<not> blank (logoPrompt (ui animating_page))
   \<and> play1 (User PressGenerateLogo) animating_page = Some relogo_page
   \<and> generatedVideo (ui relogo_page) = None \<and> error (ui relogo_page) = None
   \<and> isGeneratingLogo (ui relogo_page)
   \<and> tasks relogo_page = [VideoTask logo_ready, ImageTask]
   \<and> mounted (app relogo_page) \<and> 1 < length (tasks relogo_page)
   \<and> tasks relogo_page ! 1 = ImageTask
   \<and> map_option (generatedLogo \<circ> ui)
         (play1 (Settle 1 (ImageSettles (Fulfilled ''UQ==''))) relogo_page)
       = Some (Some ''data:image/jpeg;base64,UQ=='')
   \<and> map_option (logoToAnimate \<circ> ui)
         (play1 (Settle 1 (ImageSettles (Fulfilled ''UQ==''))) relogo_page)
       = Some (Some ''data:image/jpeg;base64,UQ=='')
   \<and> map_option (isGeneratingLogo \<circ> ui)
         (play1 (Settle 1 (ImageSettles (Fulfilled ''UQ==''))) relogo_page)
       = Some False
   \<and> map_option (generatedVideo \<circ> ui)
         (play [User PressGenerateLogo, Settle 1 (ImageSettles (Fulfilled ''UQ==''))]
            animating_page)
       = Some None
   \<and> map_option (error \<circ> ui)
         (play [User PressGenerateLogo, Settle 1 (ImageSettles (Fulfilled ''UQ==''))]
            animating_page)
       = Some None"
proof -
  have h: "mounted (app animating_page) \<and> offered PressGenerateLogo (ui animating_page)
           \<and> \<not> blank (logoPrompt (ui animating_page))"
    by simp
  have g: "mounted (app relogo_page) \<and> 1 < length (tasks relogo_page)
           \<and> tasks relogo_page ! 1 = ImageTask"
    by simp
  note t = requestLogo_success [of animating_page relogo_page 1 "''UQ==''"]
  from t h obtain p' where p': "play1 (User PressGenerateLogo) animating_page = Some p'"
    "generatedVideo (ui p') = None" "error (ui p') = None" "isGeneratingLogo (ui p')"
    "tasks p' = tasks animating_page @ [ImageTask]"
    by blast
  from p'(1) have e: "p' = relogo_page" by (simp only: relogo_page_reached option.inject)
  from t g obtain q' where q': "play1 (Settle 1 (ImageSettles (Fulfilled ''UQ==''))) relogo_page = Some q'"
    "generatedLogo (ui q') = Some (''data:image/jpeg;base64,'' @ ''UQ=='')"
    "logoToAnimate (ui q') = generatedLogo (ui q')" "\<not> isGeneratingLogo (ui q')"
    by blast
  from t h obtain s' where s': "map_option ui (play [User PressGenerateLogo,
        Settle (length (tasks animating_page)) (ImageSettles (Fulfilled ''UQ==''))] animating_page)
      = Some s'" "generatedVideo s' = None" "error s' = None"
    by blast
  have l: "length (tasks animating_page) = 1" by simp
  from s'(1) obtain r where r: "play [User PressGenerateLogo,
        Settle 1 (ImageSettles (Fulfilled ''UQ==''))] animating_page = Some r" "ui r = s'"
    unfolding l by blast
  have c1: "map_option (generatedLogo \<circ> ui)
         (play1 (Settle 1 (ImageSettles (Fulfilled ''UQ==''))) relogo_page)
       = Some (Some ''data:image/jpeg;base64,UQ=='')"
    and c2: "map_option (logoToAnimate \<circ> ui)
         (play1 (Settle 1 (ImageSettles (Fulfilled ''UQ==''))) relogo_page)
       = Some (Some ''data:image/jpeg;base64,UQ=='')"
    and c3: "map_option (isGeneratingLogo \<circ> ui)
         (play1 (Settle 1 (ImageSettles (Fulfilled ''UQ==''))) relogo_page)
       = Some False"
    unfolding q'(1) using q'(2-4) by simp_all
  have c4: "map_option (generatedVideo \<circ> ui)
         (play [User PressGenerateLogo, Settle 1 (ImageSettles (Fulfilled ''UQ==''))]
            animating_page) = Some None"
    and c5: "map_option (error \<circ> ui)
         (play [User PressGenerateLogo, Settle 1 (ImageSettles (Fulfilled ''UQ==''))]
            animating_page) = Some None"
    unfolding r(1) using r(2) s'(2,3) by simp_all
  from p'(2-5) have c0: "generatedVideo (ui relogo_page) = None \<and> error (ui relogo_page) = None
    \<and> isGeneratingLogo (ui relogo_page) \<and> tasks relogo_page = [VideoTask logo_ready, ImageTask]"
    unfolding e by simp
  from h g c0 c1 c2 c3 c4 c5 relogo_page_reached show ?thesis by blast
qed

section \<open>\<open>handleFileChange\<close>\<close>

text \<open>
  Claim C7, as stated, in a run of the page in which a file is chosen while a video call
  is pending (lines 249--252 never disable the upload field) and the video call fails
  before the file is read: after the successful upload \<open>logoToAnimate\<close> is the encoded
  file, and \<open>error\<close> holds the message of the failed video call.
\<close>

theorem upload_success_with_error:
  "play [User PressGenerateVideo, Settle 0 (KeySettles (Fulfilled True))] ready_page
     = Some animating_page
   \<and> map_option (logoToAnimate \<circ> ui)
        (play [User (ChooseFile (Some ''new.png'')),
               Settle 0 (VideoSettles (Rejected (Thrown (Some ''quota'')))),
               Settle 0 (FileSettles (Fulfilled ''data:image/png;base64,Tg==''))] animating_page)
       = Some (Some ''data:image/png;base64,Tg=='')
   \<and> map_option (error \<circ> ui)
        (play [User (ChooseFile (Some ''new.png'')),
               Settle 0 (VideoSettles (Rejected (Thrown (Some ''quota'')))),
               Settle 0 (FileSettles (Fulfilled ''data:image/png;base64,Tg==''))] animating_page)
       = Some (Some ''quota'')"
proof (intro conjI)
  show "play [User PressGenerateVideo, Settle 0 (KeySettles (Fulfilled True))] ready_page
     = Some animating_page"
    by (rule animating_page_reached)
qed (simp_all add: animating_page_def logo_ready_def step_defs app_defs Let_def)

text \<open>
  Claim C7, amended. A run of \<open>handleFileChange\<close> on a chosen file clears \<open>error\<close> when it
  starts to read the file. When the file has been read, whatever happened on the page
  meanwhile, the run overwrites \<open>logoToAnimate\<close> with the encoded file and clears
  \<open>generatedVideo\<close>, whatever it held; it does not write \<open>error\<close> again. When the read
  settles before anything else happens on the page, \<open>error\<close> is therefore empty after a
  successful run. When the read fails, \<open>error\<close> is set to the fixed message ``Failed to
  read the uploaded file.''.
\<close>

theorem replaceAnimationInput_outcomes:
  "(mounted (app p) \<and> offered (ChooseFile (Some f)) (ui p) \<longrightarrow>
      (\<exists>p'. play1 (User (ChooseFile (Some f))) p = Some p'
         \<and> error (ui p') = None
         \<and> tasks p' = tasks p @ [FileTask]
         \<and> made p' = made p @ [FileToBase64 f]))
   \<and> (mounted (app q) \<and> k < length (tasks q) \<and> tasks q ! k = FileTask \<longrightarrow>
      (\<exists>q'. play1 (Settle k (FileSettles (Fulfilled base64))) q = Some q'
         \<and> logoToAnimate (ui q') = Some base64
         \<and> generatedVideo (ui q') = None
         \<and> error (ui q') = error (ui q)))
   \<and> (mounted (app q) \<and> k < length (tasks q) \<and> tasks q ! k = FileTask \<longrightarrow>
      (\<exists>q'. play1 (Settle k (FileSettles (Rejected e))) q = Some q'
         \<and> error (ui q') = Some ''Failed to read the uploaded file.''))
   \<and> (mounted (app p) \<and> offered (ChooseFile (Some f)) (ui p) \<longrightarrow>
      (\<exists>s'. map_option ui (play [User (ChooseFile (Some f)),
                                   Settle (length (tasks p)) (FileSettles (Fulfilled base64))] p)
              = Some s'
         \<and> logoToAnimate s' = Some base64
         \<and> generatedVideo s' = None
         \<and> error s' = None))"
proof (intro conjI impI)
  assume a: "mounted (app p) \<and> offered (ChooseFile (Some f)) (ui p)"
  have "press (ChooseFile (Some f)) (ui p) = (file_start (ui p), [FileTask], [FileToBase64 f])"
    by simp
  from play1_User [OF _ _ this] a
  obtain p' where "play1 (User (ChooseFile (Some f))) p = Some p'" "ui p' = file_start (ui p)"
    "tasks p' = tasks p @ [FileTask]" "made p' = made p @ [FileToBase64 f]"
    by blast
  then show "\<exists>p'. play1 (User (ChooseFile (Some f))) p = Some p'
         \<and> error (ui p') = None
         \<and> tasks p' = tasks p @ [FileTask]
         \<and> made p' = made p @ [FileToBase64 f]"
    by (simp add: file_start_def)
  from a have "map_option ui (play [User (ChooseFile (Some f)),
        Settle (length (tasks p)) (FileSettles (Fulfilled base64))] p)
      = Some (result (handleFileChange (Some f) (Fulfilled base64) (ui p)))"
    by (intro file_run_on_page) simp_all
  moreover have "result (handleFileChange (Some f) (Fulfilled base64) (ui p))
      = file_settle (Fulfilled base64) (file_start (ui p))"
    by (simp add: handleFileChange_def)
  ultimately have run: "map_option ui (play [User (ChooseFile (Some f)),
        Settle (length (tasks p)) (FileSettles (Fulfilled base64))] p)
      = Some (file_settle (Fulfilled base64) (file_start (ui p)))"
    by (simp only:)
  show "\<exists>s'. map_option ui (play [User (ChooseFile (Some f)),
                                   Settle (length (tasks p)) (FileSettles (Fulfilled base64))] p)
              = Some s'
         \<and> logoToAnimate s' = Some base64
         \<and> generatedVideo s' = None
         \<and> error s' = None"
  proof (intro exI [of _ "file_settle (Fulfilled base64) (file_start (ui p))"] conjI)
    show "map_option ui (play [User (ChooseFile (Some f)),
        Settle (length (tasks p)) (FileSettles (Fulfilled base64))] p)
      = Some (file_settle (Fulfilled base64) (file_start (ui p)))"
      by (rule run)
  qed (simp_all add: file_settle_def file_start_def)
next
  assume a: "mounted (app q) \<and> k < length (tasks q) \<and> tasks q ! k = FileTask"
  then have "resume (tasks q ! k) (FileSettles (Fulfilled base64)) (ui q)
    = Some (file_settle (Fulfilled base64) (ui q), [], [], False)"
    by simp
  from play1_Settle [OF _ _ this] a
  obtain q' where "play1 (Settle k (FileSettles (Fulfilled base64))) q = Some q'"
    "ui q' = file_settle (Fulfilled base64) (ui q)"
    by blast
  then show "\<exists>q'. play1 (Settle k (FileSettles (Fulfilled base64))) q = Some q'
         \<and> logoToAnimate (ui q') = Some base64
         \<and> generatedVideo (ui q') = None
         \<and> error (ui q') = error (ui q)"
    by (simp add: file_settle_def)
next
  assume a: "mounted (app q) \<and> k < length (tasks q) \<and> tasks q ! k = FileTask"
  then have "resume (tasks q ! k) (FileSettles (Rejected e)) (ui q)
    = Some (file_settle (Rejected e) (ui q), [], [], False)"
    by simp
  from play1_Settle [OF _ _ this] a
  obtain q' where "play1 (Settle k (FileSettles (Rejected e))) q = Some q'"
    "ui q' = file_settle (Rejected e) (ui q)"
    by blast
  then show "\<exists>q'. play1 (Settle k (FileSettles (Rejected e))) q = Some q'
         \<and> error (ui q') = Some ''Failed to read the uploaded file.''"
    by (simp add: file_settle_def)
qed

theorem replaceAnimationInput_outcomes_witness:
  "mounted (app shown_page) \<and> offered (ChooseFile (Some ''new.png'')) (ui shown_page)
   \<and> generatedVideo (ui shown_page) = Some ''blob:V''
   \<and> map_option (error \<circ> ui) (play1 (User (ChooseFile (Some ''new.png''))) shown_page)
       = Some None
   \<and> mounted (app uploading_page) \<and> 1 < length (tasks uploading_page)
   \<and> tasks uploading_page ! 1 = FileTask
   \<and> map_option (logoToAnimate \<circ> ui)
        (play1 (Settle 1 (FileSettles (Fulfilled ''data:image/png;base64,Tg==''))) uploading_page)
       = Some (Some ''data:image/png;base64,Tg=='')
   \<and> map_option (generatedVideo \<circ> ui)
        (play1 (Settle 1 (FileSettles (Fulfilled ''data:image/png;base64,Tg==''))) uploading_page)
       = Some None
   \<and> map_option (error \<circ> ui)
        (play1 (Settle 1 (FileSettles (Rejected (Thrown (Some ''unreadable''))))) uploading_page)
       = Some (Some ''Failed to read the uploaded file.'')
   \<and> map_option (logoToAnimate \<circ> ui)
        (play [User (ChooseFile (Some ''new.png'')),
               Settle 0 (FileSettles (Fulfilled ''data:image/png;base64,Tg==''))] shown_page)
       = Some (Some ''data:image/png;base64,Tg=='')
   \<and> map_option (generatedVideo \<circ> ui)
        (play [User (ChooseFile (Some ''new.png'')),
               Settle 0 (FileSettles (Fulfilled ''data:image/png;base64,Tg==''))] shown_page)
       = Some None
   \<and> map_option (error \<circ> ui)
        (play [User (ChooseFile (Some ''new.png'')),
               Settle 0 (FileSettles (Fulfilled ''data:image/png;base64,Tg==''))] shown_page)
       = Some None"
proof -
  let ?enc = "''data:image/png;base64,Tg==''"
  have h: "mounted (app shown_page) \<and> offered (ChooseFile (Some ''new.png'')) (ui shown_page)"
    by (simp add: video_ready_def)
  have v: "generatedVideo (ui shown_page) = Some ''blob:V''"
    by (simp add: video_ready_def)
  have g: "mounted (app uploading_page) \<and> 1 < length (tasks uploading_page)
           \<and> tasks uploading_page ! 1 = FileTask"
    by simp
  note t = replaceAnimationInput_outcomes
    [of shown_page "''new.png''" uploading_page 1 ?enc "Thrown (Some ''unreadable'')"]
  from t h obtain p' where p': "play1 (User (ChooseFile (Some ''new.png''))) shown_page = Some p'"
    "error (ui p') = None"
    by blast
  from t g obtain q' where q': "play1 (Settle 1 (FileSettles (Fulfilled ?enc))) uploading_page = Some q'"
    "logoToAnimate (ui q') = Some ?enc" "generatedVideo (ui q') = None"
    by blast
  from t g obtain q'' where q'': "play1 (Settle 1 (FileSettles (Rejected (Thrown (Some ''unreadable'')))))
       uploading_page = Some q''"
    "error (ui q'') = Some ''Failed to read the uploaded file.''"
    by blast
  from t h obtain s' where s': "map_option ui (play [User (ChooseFile (Some ''new.png'')),
        Settle (length (tasks shown_page)) (FileSettles (Fulfilled ?enc))] shown_page) = Some s'"
    "logoToAnimate s' = Some ?enc" "generatedVideo s' = None" "error s' = None"
    by blast
  have l: "length (tasks shown_page) = 0" by simp
  from s'(1) obtain r where r: "play [User (ChooseFile (Some ''new.png'')),
        Settle 0 (FileSettles (Fulfilled ?enc))] shown_page = Some r" "ui r = s'"
    unfolding l by blast
  have c1: "map_option (error \<circ> ui) (play1 (User (ChooseFile (Some ''new.png''))) shown_page)
       = Some None"
    unfolding p'(1) using p'(2) by simp
  have c2: "map_option (logoToAnimate \<circ> ui)
        (play1 (Settle 1 (FileSettles (Fulfilled ?enc))) uploading_page) = Some (Some ?enc)"
    and c3: "map_option (generatedVideo \<circ> ui)
        (play1 (Settle 1 (FileSettles (Fulfilled ?enc))) uploading_page) = Some None"
    unfolding q'(1) using q'(2,3) by simp_all
  have c4: "map_option (error \<circ> ui)
        (play1 (Settle 1 (FileSettles (Rejected (Thrown (Some ''unreadable''))))) uploading_page)
       = Some (Some ''Failed to read the uploaded file.'')"
    unfolding q''(1) using q''(2) by simp
  have c5: "map_option (logoToAnimate \<circ> ui)
        (play [User (ChooseFile (Some ''new.png'')), Settle 0 (FileSettles (Fulfilled ?enc))]
           shown_page) = Some (Some ?enc)"
    and c6: "map_option (generatedVideo \<circ> ui)
        (play [User (ChooseFile (Some ''new.png'')), Settle 0 (FileSettles (Fulfilled ?enc))]
           shown_page) = Some None"
    and c7: "map_option (error \<circ> ui)
        (play [User (ChooseFile (Some ''new.png'')), Settle 0 (FileSettles (Fulfilled ?enc))]
           shown_page) = Some None"
    unfolding r(1) using r(2) s'(2-4) by simp_all
  from h v g c1 c2 c3 c4 c5 c6 c7 show ?thesis by blast
qed

section \<open>\<open>handleGenerateVideo\<close>: a key query that throws\<close>

text \<open>
  Claim C10, as stated, at a key query that throws an error whose message carries the
  entity-not-found signature: what \<open>error\<close> holds afterwards is not the thrown message
  but the fixed request to re-select the key, and \<open>hasApiKey\<close>, true before, is false.
\<close>

theorem key_query_throw_rewritten:
  "hasApiKey logo_ready
   \<and> error (result (handleGenerateVideo
        (Rejected (Thrown (Some ''Requested entity was not found.'')))
        (Fulfilled ''blob:V'') 0 logo_ready))
       = Some ''API Key not found or invalid. Please re-select your API key.''
   \<and> \<not> hasApiKey (result (handleGenerateVideo
        (Rejected (Thrown (Some ''Requested entity was not found.'')))
        (Fulfilled ''blob:V'') 0 logo_ready))"
  by (simp add: video_run_key_rejected video_catch_error video_catch_hasApiKey message_or_def)

text \<open>
  Claim C10, amended. When the query before dispatch throws, the run makes no video call,
  renders no state with the busy flag set (unless it was set at entry), and leaves
  \<open>generatedVideo\<close> as it was; the same holds of the step that the rejection resumes on
  a page where other handlers have run meanwhile. When the thrown value is an object
  (anything but \<open>null\<close> and \<open>undefined\<close>), the run stores in \<open>error\<close> the message that
  the \<open>catch\<close> block computes from the thrown one: the thrown message itself when it is
  a non-empty string without the entity-not-found signature; the request to re-select
  the key, with \<open>hasApiKey\<close> set to false, when it has the signature; the fixed fallback
  when it is missing or empty.
\<close>

theorem key_query_throws:
  "(\<not> falsy (logoToAnimate s) \<and> \<not> blank (animationPrompt s) \<longrightarrow>
       calls (handleGenerateVideo (Rejected e) vid ticks s) = [HasSelectedApiKey]
     \<and> (\<forall>st \<in> set (rendered (handleGenerateVideo (Rejected e) vid ticks s)).
           isGeneratingVideo st \<longrightarrow> isGeneratingVideo s)
     \<and> generatedVideo (result (handleGenerateVideo (Rejected e) vid ticks s)) = generatedVideo s
     \<and> (\<forall>m. e = Thrown m \<longrightarrow>
           error (result (handleGenerateVideo (Rejected e) vid ticks s)) =
             Some (if includes_js (message_or m ''An unknown error occurred during video generation.'')
                        ''Requested entity was not found''
                   then ''API Key not found or invalid. Please re-select your API key.''
                   else message_or m ''An unknown error occurred during video generation.'')
         \<and> hasApiKey (result (handleGenerateVideo (Rejected e) vid ticks s)) =
             (if includes_js (message_or m ''An unknown error occurred during video generation.'')
                   ''Requested entity was not found''
              then False else hasApiKey s)
         \<and> (\<forall>v. m = Some v \<and> v \<noteq> [] \<and> \<not> includes_js v ''Requested entity was not found''
               \<longrightarrow> error (result (handleGenerateVideo (Rejected e) vid ticks s)) = Some v)
         \<and> (m = None \<or> m = Some []
               \<longrightarrow> error (result (handleGenerateVideo (Rejected e) vid ticks s))
                     = Some ''An unknown error occurred during video generation.'')))
   \<and> (mounted (app q) \<and> k < length (tasks q) \<and> tasks q ! k = VideoKeyTask seen \<longrightarrow>
       (\<exists>q'. play1 (Settle k (KeySettles (Rejected e))) q = Some q'
          \<and> made q' = made q
          \<and> tasks q' = take k (tasks q) @ drop (Suc k) (tasks q)
          \<and> \<not> isGeneratingVideo (ui q')
          \<and> generatedVideo (ui q') = generatedVideo (ui q)
          \<and> (\<forall>m. e = Thrown m \<longrightarrow>
                error (ui q') =
                  Some (if includes_js
                             (message_or m ''An unknown error occurred during video generation.'')
                             ''Requested entity was not found''
                        then ''API Key not found or invalid. Please re-select your API key.''
                        else message_or m ''An unknown error occurred during video generation.'')
              \<and> hasApiKey (ui q') =
                  (if includes_js
                        (message_or m ''An unknown error occurred during video generation.'')
                        ''Requested entity was not found''
                   then False else hasApiKey (ui q)))))"
proof (intro conjI impI)
  assume "\<not> falsy (logoToAnimate s) \<and> \<not> blank (animationPrompt s)"
  then have run: "handleGenerateVideo (Rejected e) vid ticks s =
     \<lparr> result = video_finally (video_catch e s), pending = [(HasSelectedApiKey, s)],
       uncaught = catch_throws e \<rparr>"
    by (simp add: video_run_key_rejected)
  show "calls (handleGenerateVideo (Rejected e) vid ticks s) = [HasSelectedApiKey]"
    by (simp add: run calls_def)
  show "\<forall>st \<in> set (rendered (handleGenerateVideo (Rejected e) vid ticks s)).
           isGeneratingVideo st \<longrightarrow> isGeneratingVideo s"
    by (simp add: run rendered_def)
  show "generatedVideo (result (handleGenerateVideo (Rejected e) vid ticks s)) = generatedVideo s"
    by (simp add: run)
  show "\<forall>m. e = Thrown m \<longrightarrow>
           error (result (handleGenerateVideo (Rejected e) vid ticks s)) =
             Some (if includes_js (message_or m ''An unknown error occurred during video generation.'')
                        ''Requested entity was not found''
                   then ''API Key not found or invalid. Please re-select your API key.''
                   else message_or m ''An unknown error occurred during video generation.'')
         \<and> hasApiKey (result (handleGenerateVideo (Rejected e) vid ticks s)) =
             (if includes_js (message_or m ''An unknown error occurred during video generation.'')
                   ''Requested entity was not found''
              then False else hasApiKey s)
         \<and> (\<forall>v. m = Some v \<and> v \<noteq> [] \<and> \<not> includes_js v ''Requested entity was not found''
               \<longrightarrow> error (result (handleGenerateVideo (Rejected e) vid ticks s)) = Some v)
         \<and> (m = None \<or> m = Some []
               \<longrightarrow> error (result (handleGenerateVideo (Rejected e) vid ticks s))
                     = Some ''An unknown error occurred during video generation.'')"
  proof (intro allI impI)
    fix m
    assume "e = Thrown m"
    with run have r: "result (handleGenerateVideo (Rejected e) vid ticks s)
      = video_finally (video_catch (Thrown m) s)"
      by simp
    show "error (result (handleGenerateVideo (Rejected e) vid ticks s)) =
             Some (if includes_js (message_or m ''An unknown error occurred during video generation.'')
                        ''Requested entity was not found''
                   then ''API Key not found or invalid. Please re-select your API key.''
                   else message_or m ''An unknown error occurred during video generation.'')
         \<and> hasApiKey (result (handleGenerateVideo (Rejected e) vid ticks s)) =
             (if includes_js (message_or m ''An unknown error occurred during video generation.'')
                   ''Requested entity was not found''
              then False else hasApiKey s)
         \<and> (\<forall>v. m = Some v \<and> v \<noteq> [] \<and> \<not> includes_js v ''Requested entity was not found''
               \<longrightarrow> error (result (handleGenerateVideo (Rejected e) vid ticks s)) = Some v)
         \<and> (m = None \<or> m = Some []
               \<longrightarrow> error (result (handleGenerateVideo (Rejected e) vid ticks s))
                     = Some ''An unknown error occurred during video generation.'')"
      unfolding r by (auto simp: video_catch_error video_catch_hasApiKey message_or_def)
  qed
next
  assume a: "mounted (app q) \<and> k < length (tasks q) \<and> tasks q ! k = VideoKeyTask seen"
  then have "resume (tasks q ! k) (KeySettles (Rejected e)) (ui q)
    = Some (video_finally (video_catch e (ui q)), [], [], catch_throws e)"
    by (simp add: video_key_settle_def)
  from play1_Settle [OF _ _ this] a
  obtain q' where q': "play1 (Settle k (KeySettles (Rejected e))) q = Some q'"
    "ui q' = video_finally (video_catch e (ui q))"
    "tasks q' = take k (tasks q) @ drop (Suc k) (tasks q) @ []" "made q' = made q @ []"
    by blast
  show "\<exists>q'. play1 (Settle k (KeySettles (Rejected e))) q = Some q'
          \<and> made q' = made q
          \<and> tasks q' = take k (tasks q) @ drop (Suc k) (tasks q)
          \<and> \<not> isGeneratingVideo (ui q')
          \<and> generatedVideo (ui q') = generatedVideo (ui q)
          \<and> (\<forall>m. e = Thrown m \<longrightarrow>
                error (ui q') =
                  Some (if includes_js
                             (message_or m ''An unknown error occurred during video generation.'')
                             ''Requested entity was not found''
                        then ''API Key not found or invalid. Please re-select your API key.''
                        else message_or m ''An unknown error occurred during video generation.'')
              \<and> hasApiKey (ui q') =
                  (if includes_js
                        (message_or m ''An unknown error occurred during video generation.'')
                        ''Requested entity was not found''
                   then False else hasApiKey (ui q)))"
  proof (intro exI [of _ q'] conjI allI impI)
    show "play1 (Settle k (KeySettles (Rejected e))) q = Some q'" by (rule q'(1))
  qed (simp_all add: q'(2-4) video_catch_error video_catch_hasApiKey)
qed

theorem key_query_throws_witness:
  "\<not> falsy (logoToAnimate video_ready) \<and> \<not> blank (animationPrompt video_ready)
   \<and> calls (handleGenerateVideo (Rejected (Thrown (Some ''aistudio is not available'')))
        (Fulfilled ''blob:W'') 0 video_ready) = [HasSelectedApiKey]
   \<and> map isGeneratingVideo (rendered (handleGenerateVideo
        (Rejected (Thrown (Some ''aistudio is not available''))) (Fulfilled ''blob:W'') 0
        video_ready))
       = [False, False]
   \<and> generatedVideo (result (handleGenerateVideo
        (Rejected (Thrown (Some ''aistudio is not available''))) (Fulfilled ''blob:W'') 0
        video_ready)) = Some ''blob:V''
   \<and> error (result (handleGenerateVideo
        (Rejected (Thrown (Some ''aistudio is not available''))) (Fulfilled ''blob:W'') 0
        video_ready)) = Some ''aistudio is not available''
   \<and> play1 (User PressGenerateVideo) ready_page = Some asking_page
   \<and> mounted (app asking_page) \<and> 0 < length (tasks asking_page)
   \<and> tasks asking_page ! 0 = VideoKeyTask logo_ready
   \<and> map_option made
        (play1 (Settle 0 (KeySettles (Rejected (Thrown (Some ''aistudio is not available'')))))
           asking_page)
       = Some [HasSelectedApiKey, GenerateLogoImage ''red circle'', HasSelectedApiKey]
   \<and> map_option tasks
        (play1 (Settle 0 (KeySettles (Rejected (Thrown (Some ''aistudio is not available'')))))
           asking_page)
       = Some []
   \<and> map_option (isGeneratingVideo \<circ> ui)
        (play1 (Settle 0 (KeySettles (Rejected (Thrown (Some ''aistudio is not available'')))))
           asking_page)
       = Some False
   \<and> map_option (error \<circ> ui)
        (play1 (Settle 0 (KeySettles (Rejected (Thrown (Some ''aistudio is not available'')))))
           asking_page)
       = Some (Some ''aistudio is not available'')"
proof -
  let ?e = "Thrown (Some ''aistudio is not available'')"
  have h: "\<not> falsy (logoToAnimate video_ready) \<and> \<not> blank (animationPrompt video_ready)"
    by (simp add: video_ready_def)
  have g: "mounted (app asking_page) \<and> 0 < length (tasks asking_page)
           \<and> tasks asking_page ! 0 = VideoKeyTask logo_ready"
    by simp
  have n: "''aistudio is not available'' \<noteq> []
           \<and> \<not> includes_js ''aistudio is not available'' ''Requested entity was not found''"
    by simp
  have mo: "message_or (Some ''aistudio is not available'')
              ''An unknown error occurred during video generation.''
            = ''aistudio is not available''"
    by (simp add: message_or_def)
  note t = key_query_throws [of video_ready ?e "Fulfilled ''blob:W''" 0 asking_page 0 logo_ready]
  from t h have c1: "calls (handleGenerateVideo (Rejected ?e)
        (Fulfilled ''blob:W'') 0 video_ready) = [HasSelectedApiKey]"
    by blast
  from t h have c2: "generatedVideo (result (handleGenerateVideo (Rejected ?e)
        (Fulfilled ''blob:W'') 0 video_ready)) = generatedVideo video_ready"
    by blast
  from t h n have c3: "error (result (handleGenerateVideo (Rejected ?e)
        (Fulfilled ''blob:W'') 0 video_ready)) = Some ''aistudio is not available''"
    by blast
  from t g obtain q' where q': "play1 (Settle 0 (KeySettles (Rejected ?e))) asking_page = Some q'"
    "made q' = made asking_page"
    "tasks q' = take 0 (tasks asking_page) @ drop (Suc 0) (tasks asking_page)"
    "\<not> isGeneratingVideo (ui q')"
    "error (ui q') =
       Some (if includes_js (message_or (Some ''aistudio is not available'')
                               ''An unknown error occurred during video generation.'')
                  ''Requested entity was not found''
             then ''API Key not found or invalid. Please re-select your API key.''
             else message_or (Some ''aistudio is not available'')
                    ''An unknown error occurred during video generation.'')"
    by blast
  have c4: "map_option made (play1 (Settle 0 (KeySettles (Rejected ?e))) asking_page)
       = Some [HasSelectedApiKey, GenerateLogoImage ''red circle'', HasSelectedApiKey]"
    and c5: "map_option tasks (play1 (Settle 0 (KeySettles (Rejected ?e))) asking_page) = Some []"
    and c6: "map_option (isGeneratingVideo \<circ> ui)
        (play1 (Settle 0 (KeySettles (Rejected ?e))) asking_page) = Some False"
    and c7: "map_option (error \<circ> ui)
        (play1 (Settle 0 (KeySettles (Rejected ?e))) asking_page)
       = Some (Some ''aistudio is not available'')"
    unfolding q'(1) using q'(2-5) n by (simp_all add: mo)
  have r: "map isGeneratingVideo (rendered (handleGenerateVideo (Rejected ?e)
        (Fulfilled ''blob:W'') 0 video_ready)) = [False, False]"
    using h by (simp add: video_run_key_rejected rendered_def video_ready_def)
  have v: "generatedVideo video_ready = Some ''blob:V''"
    by (simp add: video_ready_def)
  from c2 v have c2': "generatedVideo (result (handleGenerateVideo (Rejected ?e)
        (Fulfilled ''blob:W'') 0 video_ready)) = Some ''blob:V''"
    by simp
  from h g c1 c2' c3 c4 c5 c6 c7 r asking_page_reached show ?thesis by blast
qed

section \<open>\<open>handleGenerateVideo\<close>: a failed video call\<close>

text \<open>
  What the claim says holds of every failure that is an object: on any page on which the
  video call is pending, a rejection with a message that contains ``Requested entity was
  not found'' sets \<open>hasApiKey\<close> to false and \<open>error\<close> to the request to re-select the
  key; any other non-empty message is stored in \<open>error\<close> as it is, and a missing or
  empty one is replaced by the fixed fallback, \<open>hasApiKey\<close> staying as it was.
\<close>

lemma video_failure_of_an_object:
  assumes "mounted (app q)" "k < length (tasks q)" "tasks q ! k = VideoTask seen"
  shows "\<exists>q'. play1 (Settle k (VideoSettles (Rejected (Thrown m)))) q = Some q'
          \<and> \<not> isGeneratingVideo (ui q')
          \<and> error (ui q') =
              Some (if includes_js
                         (message_or m ''An unknown error occurred during video generation.'')
                         ''Requested entity was not found''
                    then ''API Key not found or invalid. Please re-select your API key.''
                    else message_or m ''An unknown error occurred during video generation.'')
          \<and> hasApiKey (ui q') =
              (if includes_js
                    (message_or m ''An unknown error occurred during video generation.'')
                    ''Requested entity was not found''
               then False else hasApiKey (ui q))"
proof -
  from assms(3) have "resume (tasks q ! k) (VideoSettles (Rejected (Thrown m))) (ui q)
    = Some (video_finally (video_catch (Thrown m) (ui q)), [], [], False)"
    by (simp add: video_settle_def)
  from play1_Settle [OF assms(1,2) this]
  obtain q' where q': "play1 (Settle k (VideoSettles (Rejected (Thrown m)))) q = Some q'"
    "ui q' = video_finally (video_catch (Thrown m) (ui q))"
    by blast
  show ?thesis
  proof (intro exI [of _ q'] conjI)
    show "play1 (Settle k (VideoSettles (Rejected (Thrown m)))) q = Some q'" by (rule q'(1))
  qed (simp_all add: q'(2) video_catch_error video_catch_hasApiKey)
qed

lemma message_or_cases:
  "message_or None fallback = fallback"
  "message_or (Some []) fallback = fallback"
  "v \<noteq> [] \<Longrightarrow> message_or (Some v) fallback = v"
  by (simp_all add: message_or_def)

text \<open>
  Claim C4, at a video call that is rejected with \<open>undefined\<close>, a failure without a
  message. The claim asks for the generic fallback in \<open>error\<close>, and line 128 provides it
  with \<open>e.message || ...\<close>; but on \<open>undefined\<close> the read of \<open>e.message\<close> throws inside
  the \<open>catch\<close> block: \<open>error\<close> stays empty, the busy flag is cleared by \<open>finally\<close>, and
  the promise of the handler is rejected. A thrown object without a message gets the
  fallback.
\<close>

theorem video_rejected_with_undefined:
  "play [User PressGenerateVideo, Settle 0 (KeySettles (Fulfilled True))] ready_page
     = Some animating_page
   \<and> map_option (error \<circ> ui)
        (play [Settle 0 (VideoSettles (Rejected Nullish))] animating_page) = Some None
   \<and> map_option (isGeneratingVideo \<circ> ui)
        (play [Settle 0 (VideoSettles (Rejected Nullish))] animating_page) = Some False
   \<and> map_option (hasApiKey \<circ> ui)
        (play [Settle 0 (VideoSettles (Rejected Nullish))] animating_page) = Some True
   \<and> map_option rejections
        (play [Settle 0 (VideoSettles (Rejected Nullish))] animating_page) = Some 1
   \<and> error (result (handleGenerateVideo (Fulfilled True) (Rejected Nullish) 0 logo_ready)) = None
   \<and> uncaught (handleGenerateVideo (Fulfilled True) (Rejected Nullish) 0 logo_ready)
   \<and> error (result (handleGenerateVideo (Fulfilled True) (Rejected (Thrown None)) 0 logo_ready))
       = Some ''An unknown error occurred during video generation.''
   \<and> \<not> uncaught (handleGenerateVideo (Fulfilled True) (Rejected (Thrown None)) 0 logo_ready)"
proof (intro conjI)
  show "play [User PressGenerateVideo, Settle 0 (KeySettles (Fulfilled True))] ready_page
     = Some animating_page"
    by (rule animating_page_reached)
  show "error (result (handleGenerateVideo (Fulfilled True) (Rejected Nullish) 0 logo_ready)) = None"
    by (simp add: video_run_dispatched video_settle_def video_dispatch_def)
  show "uncaught (handleGenerateVideo (Fulfilled True) (Rejected Nullish) 0 logo_ready)"
    by (simp add: video_run_dispatched)
  show "error (result (handleGenerateVideo (Fulfilled True) (Rejected (Thrown None)) 0 logo_ready))
       = Some ''An unknown error occurred during video generation.''"
    by (simp add: video_run_dispatched video_settle_def video_catch_error message_or_def)
  show "\<not> uncaught (handleGenerateVideo (Fulfilled True) (Rejected (Thrown None)) 0 logo_ready)"
    by (simp add: video_run_dispatched)
qed (simp_all add: animating_page_def logo_ready_def step_defs app_defs Let_def)

section \<open>Where \<open>generatedVideo\<close> comes from, and what clears it\<close>

text \<open>
  Claim C1, as stated, in two runs of the page that start with a generated logo and a
  click on the animation button for the prompt ``spin''. In the first the video arrives
  and the prompt is then edited to ``zoom'': the edit (line 259) only sets
  \<open>animationPrompt\<close>, and \<open>generatedVideo\<close> still holds the video made for ``spin''. In
  the second a file is uploaded while the video call is pending (lines 249--252 never
  disable the upload field) and is read before the video arrives: line 124 then stores
  the video made from the old logo beside the uploaded \<open>logoToAnimate\<close>.
\<close>

theorem video_outlives_prompt_and_logo:
  "play [User PressGenerateVideo, Settle 0 (KeySettles (Fulfilled True))] ready_page
     = Some animating_page
   \<and> made animating_page = made ready_page
        @ [HasSelectedApiKey, GenerateLogoVideo ''spin'' (Some ''UA=='') Portrait_9_16]
   \<and> map_option (generatedVideo \<circ> ui)
        (play [Settle 0 (VideoSettles (Fulfilled ''blob:V'')),
               User (TypeAnimationPrompt ''zoom'')] animating_page) = Some (Some ''blob:V'')
   \<and> map_option (animationPrompt \<circ> ui)
        (play [Settle 0 (VideoSettles (Fulfilled ''blob:V'')),
               User (TypeAnimationPrompt ''zoom'')] animating_page) = Some ''zoom''
   \<and> map_option (generatedVideo \<circ> ui)
        (play [User (ChooseFile (Some ''new.png'')),
               Settle 1 (FileSettles (Fulfilled ''data:image/png;base64,Tg=='')),
               Settle 0 (VideoSettles (Fulfilled ''blob:V''))] animating_page)
       = Some (Some ''blob:V'')
   \<and> map_option (logoToAnimate \<circ> ui)
        (play [User (ChooseFile (Some ''new.png'')),
               Settle 1 (FileSettles (Fulfilled ''data:image/png;base64,Tg=='')),
               Settle 0 (VideoSettles (Fulfilled ''blob:V''))] animating_page)
       = Some (Some ''data:image/png;base64,Tg=='')"
proof (intro conjI)
  show "play [User PressGenerateVideo, Settle 0 (KeySettles (Fulfilled True))] ready_page
     = Some animating_page"
    by (rule animating_page_reached)
qed (simp_all add: animating_page_def ready_page_def logo_ready_def step_defs app_defs Let_def)

text \<open>
  Claim C1, amended. On the page, whatever the order in which gestures, settlements and
  firings follow one another since the mount, a non-empty \<open>generatedVideo\<close> is the value
  with which a video call was fulfilled, and that call was made, after a click on the
  animation button, from the \<open>logoToAnimate\<close>, the \<open>animationPrompt\<close> and the format
  that the page showed at that click. When the user has made every gesture while no call
  was pending, that \<open>logoToAnimate\<close> is still the one on the page. A run of
  \<open>handleGenerateLogo\<close> that passes validation clears \<open>generatedVideo\<close>, together with
  \<open>logoToAnimate\<close>, when it dispatches the image call; a run of \<open>handleFileChange\<close>
  clears it when it stores the encoded file as \<open>logoToAnimate\<close>; an edit of
  \<open>animationPrompt\<close> leaves it as it is.
\<close>

theorem video_comes_from_a_request:
  "(play ms opened = Some p \<and> generatedVideo (ui p) = Some v \<longrightarrow>
      (\<exists>ms0 ms1 k ms2 q0 q.
          ms = ms0 @ User PressGenerateVideo # ms1 @ Settle k (VideoSettles (Fulfilled v)) # ms2
        \<and> play ms0 opened = Some q0
        \<and> play (ms0 @ User PressGenerateVideo # ms1) opened = Some q
        \<and> k < length (tasks q) \<and> tasks q ! k = VideoTask (ui q0)
        \<and> GenerateLogoVideo (animationPrompt (ui q0)) (base64Data (logoToAnimate (ui q0)))
             (aspectRatio (ui q0)) \<in> set (made q)
        \<and> (patient ms opened \<longrightarrow> logoToAnimate (ui p) = logoToAnimate (ui q0))))
   \<and> (mounted (app p1) \<and> offered PressGenerateLogo (ui p1) \<and> \<not> blank (logoPrompt (ui p1)) \<longrightarrow>
      (\<exists>p'. play1 (User PressGenerateLogo) p1 = Some p'
         \<and> generatedVideo (ui p') = None \<and> logoToAnimate (ui p') = None))
   \<and> (mounted (app p2) \<and> k2 < length (tasks p2) \<and> tasks p2 ! k2 = FileTask \<longrightarrow>
      (\<exists>p'. play1 (Settle k2 (FileSettles (Fulfilled base64))) p2 = Some p'
         \<and> generatedVideo (ui p') = None \<and> logoToAnimate (ui p') = Some base64))
   \<and> (mounted (app p3) \<and> offered (TypeAnimationPrompt w) (ui p3) \<longrightarrow>
      (\<exists>p'. play1 (User (TypeAnimationPrompt w)) p3 = Some p'
         \<and> generatedVideo (ui p') = generatedVideo (ui p3) \<and> animationPrompt (ui p') = w))"
proof (intro conjI impI)
  assume a: "play ms opened = Some p \<and> generatedVideo (ui p) = Some v"
  have none: "generatedVideo (ui opened) = None"
    by (simp add: initial_state_def)
  have "\<exists>ms1 k ms2 q seen. ms = ms1 @ Settle k (VideoSettles (Fulfilled v)) # ms2
          \<and> play ms1 opened = Some q \<and> k < length (tasks q) \<and> tasks q ! k = VideoTask seen
          \<and> (patient ms opened \<longrightarrow> logoToAnimate seen = logoToAnimate (ui p))"
  proof (cases "patient ms opened")
    case True
    with a video_of_a_patient_run [of ms p v] show ?thesis by blast
  next
    case False
    with a none play_video [of ms opened p v] show ?thesis by blast
  qed
  then obtain ms1 k ms2 q seen where
    ms: "ms = ms1 @ Settle k (VideoSettles (Fulfilled v)) # ms2"
    and q: "play ms1 opened = Some q" and k: "k < length (tasks q)"
    and task: "tasks q ! k = VideoTask seen"
    and same: "patient ms opened \<longrightarrow> logoToAnimate seen = logoToAnimate (ui p)"
    by blast
  from k task have pending: "VideoTask seen \<in> set (tasks q)"
    by (metis nth_mem)
  have fresh: "\<not> carries seen (tasks opened)" "VideoTask seen \<notin> set (tasks opened)"
    by (simp_all add: carries_def)
  from pending have "carries seen (tasks q)"
    by (simp add: carries_def)
  from play_carries [OF q this fresh(1)] obtain ms0 rest q0 where
    ms1: "ms1 = ms0 @ User PressGenerateVideo # rest" and q0: "play ms0 opened = Some q0"
    and seen: "ui q0 = seen"
    by blast
  from play_video_call_made [OF q pending fresh(2)]
  have "GenerateLogoVideo (animationPrompt seen) (base64Data (logoToAnimate seen))
          (aspectRatio seen) \<in> set (made q)"
    by (simp add: video_call_def)
  with ms ms1 q q0 seen k task same
  show "\<exists>ms0 ms1 k ms2 q0 q.
          ms = ms0 @ User PressGenerateVideo # ms1 @ Settle k (VideoSettles (Fulfilled v)) # ms2
        \<and> play ms0 opened = Some q0
        \<and> play (ms0 @ User PressGenerateVideo # ms1) opened = Some q
        \<and> k < length (tasks q) \<and> tasks q ! k = VideoTask (ui q0)
        \<and> GenerateLogoVideo (animationPrompt (ui q0)) (base64Data (logoToAnimate (ui q0)))
             (aspectRatio (ui q0)) \<in> set (made q)
        \<and> (patient ms opened \<longrightarrow> logoToAnimate (ui p) = logoToAnimate (ui q0))"
    by (intro exI [of _ ms0] exI [of _ rest] exI [of _ k] exI [of _ ms2] exI [of _ q0]
          exI [of _ q]) simp
next
  assume a: "mounted (app p1) \<and> offered PressGenerateLogo (ui p1) \<and> \<not> blank (logoPrompt (ui p1))"
  then have "press PressGenerateLogo (ui p1)
    = (logo_dispatch (ui p1), [ImageTask], [GenerateLogoImage (logoPrompt (ui p1))])"
    by simp
  from play1_User [OF _ _ this] a
  obtain p' where "play1 (User PressGenerateLogo) p1 = Some p'" "ui p' = logo_dispatch (ui p1)"
    by blast
  then show "\<exists>p'. play1 (User PressGenerateLogo) p1 = Some p'
         \<and> generatedVideo (ui p') = None \<and> logoToAnimate (ui p') = None"
    by (simp add: logo_dispatch_def)
next
  assume a: "mounted (app p2) \<and> k2 < length (tasks p2) \<and> tasks p2 ! k2 = FileTask"
  then have "resume (tasks p2 ! k2) (FileSettles (Fulfilled base64)) (ui p2)
    = Some (file_settle (Fulfilled base64) (ui p2), [], [], False)"
    by simp
  from play1_Settle [OF _ _ this] a
  obtain p' where "play1 (Settle k2 (FileSettles (Fulfilled base64))) p2 = Some p'"
    "ui p' = file_settle (Fulfilled base64) (ui p2)"
    by blast
  then show "\<exists>p'. play1 (Settle k2 (FileSettles (Fulfilled base64))) p2 = Some p'
         \<and> generatedVideo (ui p') = None \<and> logoToAnimate (ui p') = Some base64"
    by (simp add: file_settle_def)
next
  assume a: "mounted (app p3) \<and> offered (TypeAnimationPrompt w) (ui p3)"
  have "press (TypeAnimationPrompt w) (ui p3) = (setAnimationPrompt w (ui p3), [], [])"
    by simp
  from play1_User [OF _ _ this] a
  obtain p' where "play1 (User (TypeAnimationPrompt w)) p3 = Some p'"
    "ui p' = setAnimationPrompt w (ui p3)"
    by blast
  then show "\<exists>p'. play1 (User (TypeAnimationPrompt w)) p3 = Some p'
         \<and> generatedVideo (ui p') = generatedVideo (ui p3) \<and> animationPrompt (ui p') = w"
    by (simp add: setAnimationPrompt_def)
qed

theorem video_comes_from_a_request_witness:
  "play [Settle 0 (KeySettles (Fulfilled True)),
         User (TypeLogoPrompt ''red circle''),
         User PressGenerateLogo,
         Settle 0 (ImageSettles (Fulfilled ''UA=='')),
         User (TypeAnimationPrompt ''spin''),
         User (PickAspectRatio Portrait_9_16),
         User PressGenerateVideo,
         Settle 0 (KeySettles (Fulfilled True)),
         Tick 1, Tick 1,
         Settle 0 (VideoSettles (Fulfilled ''blob:V''))] opened = Some shown_page
   \<and> generatedVideo (ui shown_page) = Some ''blob:V''
   \<and> (\<exists>ms0 ms1 k ms2 q0 q.
          [Settle 0 (KeySettles (Fulfilled True)),
           User (TypeLogoPrompt ''red circle''),
           User PressGenerateLogo,
           Settle 0 (ImageSettles (Fulfilled ''UA=='')),
           User (TypeAnimationPrompt ''spin''),
           User (PickAspectRatio Portrait_9_16),
           User PressGenerateVideo,
           Settle 0 (KeySettles (Fulfilled True)),
           Tick 1, Tick 1,
           Settle 0 (VideoSettles (Fulfilled ''blob:V''))]
            = ms0 @ User PressGenerateVideo # ms1
                @ Settle k (VideoSettles (Fulfilled ''blob:V'')) # ms2
        \<and> play ms0 opened = Some q0
        \<and> play (ms0 @ User PressGenerateVideo # ms1) opened = Some q
        \<and> k < length (tasks q) \<and> tasks q ! k = VideoTask (ui q0)
        \<and> GenerateLogoVideo (animationPrompt (ui q0)) (base64Data (logoToAnimate (ui q0)))
             (aspectRatio (ui q0)) \<in> set (made q)
        \<and> logoToAnimate (ui shown_page) = logoToAnimate (ui q0))
   \<and> patient
        [Settle 0 (KeySettles (Fulfilled True)),
         User (TypeLogoPrompt ''red circle''),
         User PressGenerateLogo,
         Settle 0 (ImageSettles (Fulfilled ''UA=='')),
         User (TypeAnimationPrompt ''spin''),
         User (PickAspectRatio Portrait_9_16),
         User PressGenerateVideo,
         Settle 0 (KeySettles (Fulfilled True)),
         Tick 1, Tick 1,
         Settle 0 (VideoSettles (Fulfilled ''blob:V''))] opened
   \<and> mounted (app shown_page) \<and> offered PressGenerateLogo (ui shown_page)
   \<and> \<not> blank (logoPrompt (ui shown_page))
   \<and> map_option (generatedVideo \<circ> ui) (play1 (User PressGenerateLogo) shown_page) = Some None
   \<and> map_option (logoToAnimate \<circ> ui) (play1 (User PressGenerateLogo) shown_page) = Some None
   \<and> mounted (app uploading_page) \<and> 1 < length (tasks uploading_page)
   \<and> tasks uploading_page ! 1 = FileTask
   \<and> map_option (generatedVideo \<circ> ui)
        (play1 (Settle 1 (FileSettles (Fulfilled ''data:image/png;base64,Tg==''))) uploading_page)
       = Some None
   \<and> map_option (logoToAnimate \<circ> ui)
        (play1 (Settle 1 (FileSettles (Fulfilled ''data:image/png;base64,Tg==''))) uploading_page)
       = Some (Some ''data:image/png;base64,Tg=='')
   \<and> offered (TypeAnimationPrompt ''zoom'') (ui shown_page)
   \<and> map_option (generatedVideo \<circ> ui) (play1 (User (TypeAnimationPrompt ''zoom'')) shown_page)
       = Some (Some ''blob:V'')
   \<and> map_option (animationPrompt \<circ> ui) (play1 (User (TypeAnimationPrompt ''zoom'')) shown_page)
       = Some ''zoom''"
proof -
  let ?ms = "[Settle 0 (KeySettles (Fulfilled True)),
         User (TypeLogoPrompt ''red circle''),
         User PressGenerateLogo,
         Settle 0 (ImageSettles (Fulfilled ''UA=='')),
         User (TypeAnimationPrompt ''spin''),
         User (PickAspectRatio Portrait_9_16),
         User PressGenerateVideo,
         Settle 0 (KeySettles (Fulfilled True)),
         Tick 1, Tick 1,
         Settle 0 (VideoSettles (Fulfilled ''blob:V''))]"
  let ?enc = "''data:image/png;base64,Tg==''"
  have "play ([Settle 0 (KeySettles (Fulfilled True)),
         User (TypeLogoPrompt ''red circle''),
         User PressGenerateLogo,
         Settle 0 (ImageSettles (Fulfilled ''UA=='')),
         User (TypeAnimationPrompt ''spin''),
         User (PickAspectRatio Portrait_9_16)]
        @ [User PressGenerateVideo, Settle 0 (KeySettles (Fulfilled True))]
        @ [Tick 1, Tick 1, Settle 0 (VideoSettles (Fulfilled ''blob:V''))]) opened
      = Some shown_page"
    by (simp only: play_append ready_page_reached animating_page_reached shown_page_reached
          option.case)
  then have run: "play ?ms opened = Some shown_page"
    by (simp only: append.simps)
  have v: "generatedVideo (ui shown_page) = Some ''blob:V''"
    by (simp add: video_ready_def)
  have h1: "mounted (app shown_page) \<and> offered PressGenerateLogo (ui shown_page)
            \<and> \<not> blank (logoPrompt (ui shown_page))"
    by (simp add: video_ready_def)
  have h2: "mounted (app uploading_page) \<and> 1 < length (tasks uploading_page)
           \<and> tasks uploading_page ! 1 = FileTask"
    by simp
  have h3: "mounted (app shown_page) \<and> offered (TypeAnimationPrompt ''zoom'') (ui shown_page)"
    by (simp add: video_ready_def)
  note t = video_comes_from_a_request
    [of ?ms shown_page "''blob:V''" shown_page uploading_page 1 ?enc shown_page "''zoom''"]
  have w: "patient ?ms opened"
    by (simp add: opened_def initial_state_def videoLoadingMessages_def step_defs app_defs Let_def)
  from t run v have "\<exists>ms0 ms1 k ms2 q0 q.
          ?ms = ms0 @ User PressGenerateVideo # ms1
                @ Settle k (VideoSettles (Fulfilled ''blob:V'')) # ms2
        \<and> play ms0 opened = Some q0
        \<and> play (ms0 @ User PressGenerateVideo # ms1) opened = Some q
        \<and> k < length (tasks q) \<and> tasks q ! k = VideoTask (ui q0)
        \<and> GenerateLogoVideo (animationPrompt (ui q0)) (base64Data (logoToAnimate (ui q0)))
             (aspectRatio (ui q0)) \<in> set (made q)
        \<and> (patient ?ms opened \<longrightarrow> logoToAnimate (ui shown_page) = logoToAnimate (ui q0))"
    by blast
  with w have c1: "\<exists>ms0 ms1 k ms2 q0 q.
          ?ms = ms0 @ User PressGenerateVideo # ms1
                @ Settle k (VideoSettles (Fulfilled ''blob:V'')) # ms2
        \<and> play ms0 opened = Some q0
        \<and> play (ms0 @ User PressGenerateVideo # ms1) opened = Some q
        \<and> k < length (tasks q) \<and> tasks q ! k = VideoTask (ui q0)
        \<and> GenerateLogoVideo (animationPrompt (ui q0)) (base64Data (logoToAnimate (ui q0)))
             (aspectRatio (ui q0)) \<in> set (made q)
        \<and> logoToAnimate (ui shown_page) = logoToAnimate (ui q0)"
    by blast
  from t h1 obtain a where a: "play1 (User PressGenerateLogo) shown_page = Some a"
    "generatedVideo (ui a) = None" "logoToAnimate (ui a) = None"
    by blast
  from t h2 obtain b where b: "play1 (Settle 1 (FileSettles (Fulfilled ?enc))) uploading_page = Some b"
    "generatedVideo (ui b) = None" "logoToAnimate (ui b) = Some ?enc"
    by blast
  from t h3 obtain c where c: "play1 (User (TypeAnimationPrompt ''zoom'')) shown_page = Some c"
    "generatedVideo (ui c) = generatedVideo (ui shown_page)" "animationPrompt (ui c) = ''zoom''"
    by blast
  have c2: "map_option (generatedVideo \<circ> ui) (play1 (User PressGenerateLogo) shown_page) = Some None"
    and c3: "map_option (logoToAnimate \<circ> ui) (play1 (User PressGenerateLogo) shown_page) = Some None"
    unfolding a(1) using a(2,3) by simp_all
  have c4: "map_option (generatedVideo \<circ> ui)
        (play1 (Settle 1 (FileSettles (Fulfilled ?enc))) uploading_page) = Some None"
    and c5: "map_option (logoToAnimate \<circ> ui)
        (play1 (Settle 1 (FileSettles (Fulfilled ?enc))) uploading_page) = Some (Some ?enc)"
    unfolding b(1) using b(2,3) by simp_all
  have c6: "map_option (generatedVideo \<circ> ui) (play1 (User (TypeAnimationPrompt ''zoom'')) shown_page)
       = Some (Some ''blob:V'')"
    and c7: "map_option (animationPrompt \<circ> ui) (play1 (User (TypeAnimationPrompt ''zoom'')) shown_page)
       = Some ''zoom''"
    unfolding c(1) using c(2,3) v by simp_all
  from run v c1 w h1 h2 h3 c2 c3 c4 c5 c6 c7 show ?thesis by blast
qed

section \<open>The rotating status message\<close>

text \<open>
  Claim C8, as stated, at the second video of a page: during the first one the interval
  fired twice, and nothing sets \<open>videoLoadingMessage\<close> back. When the second generation
  begins, the page shows the third message of the list, not the first.
\<close>

theorem second_generation_starts_midway:
  "play [User PressGenerateVideo, Settle 0 (KeySettles (Fulfilled True)),
         Tick 1, Tick 1, Settle 0 (VideoSettles (Fulfilled ''blob:V'')),
         User PressGenerateVideo, Settle 0 (KeySettles (Fulfilled True))] ready_page
     = Some again_page
   \<and> isGeneratingVideo (ui again_page)
   \<and> videoLoadingMessage (ui again_page) = ''Composing a symphony of light and motion...''
   \<and> hd videoLoadingMessages = ''Warming up the animation engine...''"
proof (intro conjI)
  have "play ([User PressGenerateVideo, Settle 0 (KeySettles (Fulfilled True))]
          @ [Tick 1, Tick 1, Settle 0 (VideoSettles (Fulfilled ''blob:V''))]
          @ [User PressGenerateVideo, Settle 0 (KeySettles (Fulfilled True))]) ready_page
      = Some again_page"
    by (simp only: play_append animating_page_reached shown_page_reached again_page_reached
          option.case)
  then show "play [User PressGenerateVideo, Settle 0 (KeySettles (Fulfilled True)),
         Tick 1, Tick 1, Settle 0 (VideoSettles (Fulfilled ''blob:V'')),
         User PressGenerateVideo, Settle 0 (KeySettles (Fulfilled True))] ready_page
     = Some again_page"
    by (simp only: append.simps)
qed (simp_all add: video_ready_def videoLoadingMessages_def)

text \<open>
  Claim C8, amended. Each firing of the interval replaces the status message by the next
  one of the fixed list, the last one by the first, and nothing else on the page writes
  the status message: whatever gestures, settlements, firings and unmount have followed
  the mount, the message is the one reached from the first of the list by as many steps
  as the interval has fired since the mount. So the first generation of a page begins
  with the first message, and a later one with the message at which the previous one
  stopped. One interval, with a delay of 4000 ms, is live exactly while the component is
  mounted and \<open>isGeneratingVideo\<close> is set; none is live otherwise, so nothing fires once
  the flag is cleared or the component is unmounted.
\<close>

theorem status_message_rotation:
  "(i < length videoLoadingMessages \<longrightarrow>
      next_message (videoLoadingMessages ! i)
        = videoLoadingMessages ! ((i + 1) mod length videoLoadingMessages))
   \<and> (play ms opened = Some p \<longrightarrow>
        videoLoadingMessage (ui p)
          = videoLoadingMessages ! (ticks_in ms mod length videoLoadingMessages)
      \<and> map snd (live (timers (app p)))
          = (if mounted (app p) \<and> isGeneratingVideo (ui p) then [4000] else [])
      \<and> (\<forall>h p'. play1 (Tick h) p = Some p' \<longrightarrow>
            mounted (app p) \<and> isGeneratingVideo (ui p) \<and> ui p' = interval_callback (ui p))
      \<and> (\<forall>m p'. play1 m p = Some p' \<and> \<not> is_tick m \<longrightarrow>
            videoLoadingMessage (ui p') = videoLoadingMessage (ui p)))"
proof (intro conjI impI)
  assume "i < length videoLoadingMessages"
  then show "next_message (videoLoadingMessages ! i)
        = videoLoadingMessages ! ((i + 1) mod length videoLoadingMessages)"
    by (simp add: next_message_cycle)
next
  assume run: "play ms opened = Some p"
  from play_one_interval [OF run opened_one_interval] have inv: "one_interval (app p)" .
  have first: "videoLoadingMessage (ui opened) = videoLoadingMessages ! 0"
    by (simp add: initial_state_def videoLoadingMessages_def)
  from play_message [OF run opened_one_interval] first
    next_message_iterated [of 0 "ticks_in ms"]
  show "videoLoadingMessage (ui p)
          = videoLoadingMessages ! (ticks_in ms mod length videoLoadingMessages)"
    by simp
  from one_interval_live [OF inv]
  show "map snd (live (timers (app p)))
          = (if mounted (app p) \<and> isGeneratingVideo (ui p) then [4000] else [])"
    by (simp add: ui_def)
  show "\<forall>h p'. play1 (Tick h) p = Some p' \<longrightarrow>
            mounted (app p) \<and> isGeneratingVideo (ui p) \<and> ui p' = interval_callback (ui p)"
  proof (intro allI impI)
    fix h p'
    assume t: "play1 (Tick h) p = Some p'"
    then have live: "h \<in> set (map fst (live (timers (app p))))"
      and p': "p' = p\<lparr> app := fire h (app p) \<rparr>"
      by (auto split: if_splits)
    from fire_live [OF inv live] p'
    show "mounted (app p) \<and> isGeneratingVideo (ui p) \<and> ui p' = interval_callback (ui p)"
      by (simp add: ui_def)
  qed
  show "\<forall>m p'. play1 m p = Some p' \<and> \<not> is_tick m \<longrightarrow>
            videoLoadingMessage (ui p') = videoLoadingMessage (ui p)"
  proof (intro allI impI)
    fix m p'
    assume "play1 m p = Some p' \<and> \<not> is_tick m"
    with play1_message [OF inv, of m p']
    show "videoLoadingMessage (ui p') = videoLoadingMessage (ui p)"
      by simp
  qed
qed

theorem status_message_rotation_witness:
  "5 < length videoLoadingMessages
   \<and> next_message (videoLoadingMessages ! 5) = videoLoadingMessages ! 0
   \<and> play [Settle 0 (KeySettles (Fulfilled True)),
           User (TypeLogoPrompt ''red circle''),
           User PressGenerateLogo,
           Settle 0 (ImageSettles (Fulfilled ''UA=='')),
           User (TypeAnimationPrompt ''spin''),
           User (PickAspectRatio Portrait_9_16),
           User PressGenerateVideo,
           Settle 0 (KeySettles (Fulfilled True)),
           Tick 1, Tick 1,
           Settle 0 (VideoSettles (Fulfilled ''blob:V'')),
           User PressGenerateVideo,
           Settle 0 (KeySettles (Fulfilled True))] opened = Some again_page
   \<and> videoLoadingMessage (ui again_page) = videoLoadingMessages ! 2
   \<and> mounted (app again_page) \<and> isGeneratingVideo (ui again_page)
   \<and> map snd (live (timers (app again_page))) = [4000]
   \<and> map_option ui (play1 (Tick 2) again_page) = Some (interval_callback (ui again_page))
   \<and> \<not> is_tick (Settle 0 (VideoSettles (Fulfilled ''blob:W'')))
   \<and> map_option (videoLoadingMessage \<circ> ui)
        (play1 (Settle 0 (VideoSettles (Fulfilled ''blob:W''))) again_page)
       = Some (videoLoadingMessages ! 2)
   \<and> play [Settle 0 (KeySettles (Fulfilled True)),
           User (TypeLogoPrompt ''red circle''),
           User PressGenerateLogo,
           Settle 0 (ImageSettles (Fulfilled ''UA=='')),
           User (TypeAnimationPrompt ''spin''),
           User (PickAspectRatio Portrait_9_16),
           User PressGenerateVideo,
           Settle 0 (KeySettles (Fulfilled True)),
           Tick 1, Tick 1,
           Settle 0 (VideoSettles (Fulfilled ''blob:V''))] opened = Some shown_page
   \<and> \<not> isGeneratingVideo (ui shown_page)
   \<and> map snd (live (timers (app shown_page))) = []"
proof -
  let ?first = "[Settle 0 (KeySettles (Fulfilled True)),
           User (TypeLogoPrompt ''red circle''),
           User PressGenerateLogo,
           Settle 0 (ImageSettles (Fulfilled ''UA=='')),
           User (TypeAnimationPrompt ''spin''),
           User (PickAspectRatio Portrait_9_16),
           User PressGenerateVideo,
           Settle 0 (KeySettles (Fulfilled True)),
           Tick 1, Tick 1,
           Settle 0 (VideoSettles (Fulfilled ''blob:V''))]"
  let ?second = "[Settle 0 (KeySettles (Fulfilled True)),
           User (TypeLogoPrompt ''red circle''),
           User PressGenerateLogo,
           Settle 0 (ImageSettles (Fulfilled ''UA=='')),
           User (TypeAnimationPrompt ''spin''),
           User (PickAspectRatio Portrait_9_16),
           User PressGenerateVideo,
           Settle 0 (KeySettles (Fulfilled True)),
           Tick 1, Tick 1,
           Settle 0 (VideoSettles (Fulfilled ''blob:V'')),
           User PressGenerateVideo,
           Settle 0 (KeySettles (Fulfilled True))]"
  have "play ([Settle 0 (KeySettles (Fulfilled True)),
           User (TypeLogoPrompt ''red circle''),
           User PressGenerateLogo,
           Settle 0 (ImageSettles (Fulfilled ''UA=='')),
           User (TypeAnimationPrompt ''spin''),
           User (PickAspectRatio Portrait_9_16)]
        @ [User PressGenerateVideo, Settle 0 (KeySettles (Fulfilled True))]
        @ [Tick 1, Tick 1, Settle 0 (VideoSettles (Fulfilled ''blob:V''))]) opened
      = Some shown_page"
    by (simp only: play_append ready_page_reached animating_page_reached shown_page_reached
          option.case)
  then have r1: "play ?first opened = Some shown_page"
    by (simp only: append.simps)
  have "play (?first @ [User PressGenerateVideo, Settle 0 (KeySettles (Fulfilled True))]) opened
      = Some again_page"
    by (simp only: play_append r1 again_page_reached option.case)
  then have r2: "play ?second opened = Some again_page"
    by (simp only: append.simps)
  have h1: "5 < length videoLoadingMessages" by simp
  have busy: "mounted (app again_page) \<and> isGeneratingVideo (ui again_page)" by simp
  have idle: "\<not> isGeneratingVideo (ui shown_page)" by (simp add: video_ready_def)
  have n2: "ticks_in ?second mod length videoLoadingMessages = 2"
    by (simp add: ticks_in_def)
  have tick: "play1 (Tick 2) again_page = Some (again_page\<lparr> app := fire 2 (app again_page) \<rparr>)"
    by (simp add: again_page_def)
  have nt: "\<not> is_tick (Settle 0 (VideoSettles (Fulfilled ''blob:W'')))" by simp
  obtain r where settle: "play1 (Settle 0 (VideoSettles (Fulfilled ''blob:W''))) again_page = Some r"
    by (simp add: again_page_def)
  note a = status_message_rotation [of 5 ?second again_page]
  note b = status_message_rotation [of 5 ?first shown_page]
  from a h1 have c1: "next_message (videoLoadingMessages ! 5) = videoLoadingMessages ! 0"
    by simp
  from a r2 have "videoLoadingMessage (ui again_page)
      = videoLoadingMessages ! (ticks_in ?second mod length videoLoadingMessages)"
    by blast
  then have c2: "videoLoadingMessage (ui again_page) = videoLoadingMessages ! 2"
    by (simp only: n2)
  from a r2 have "map snd (live (timers (app again_page)))
      = (if mounted (app again_page) \<and> isGeneratingVideo (ui again_page) then [4000] else [])"
    by blast
  with busy have c3: "map snd (live (timers (app again_page))) = [4000]"
    by simp
  from a r2 tick have "ui (again_page\<lparr> app := fire 2 (app again_page) \<rparr>)
      = interval_callback (ui again_page)"
    by blast
  with tick have c4: "map_option ui (play1 (Tick 2) again_page)
      = Some (interval_callback (ui again_page))"
    by (simp only: option.map)
  from a r2 settle nt have "videoLoadingMessage (ui r) = videoLoadingMessage (ui again_page)"
    by blast
  with settle c2 have c5: "map_option (videoLoadingMessage \<circ> ui)
        (play1 (Settle 0 (VideoSettles (Fulfilled ''blob:W''))) again_page)
       = Some (videoLoadingMessages ! 2)"
    by (simp only: option.map comp_apply)
  from b r1 have "map snd (live (timers (app shown_page)))
      = (if mounted (app shown_page) \<and> isGeneratingVideo (ui shown_page) then [4000] else [])"
    by blast
  with idle have c6: "map snd (live (timers (app shown_page))) = []"
    by simp
  from h1 c1 r2 c2 busy c3 c4 nt c5 r1 idle c6 show ?thesis by blast
qed

end
